theory Spec2Isabelle
  imports Complex_Main
begin

section \<open>Conventions of the embedding\<close>

text \<open>
  The development embeds the interlayer-potential (ILP) force core of
  \<^verbatim>\<open>src/force/ilp.cu\<close> and the block-temperature sampler of \<^verbatim>\<open>src/heat.cu\<close>.

  \<^item> A C \<^verbatim>\<open>double\<close> is modelled by a \<^typ>\<open>real\<close>: every statement below is about the
    exact-arithmetic reading of the code (\<^verbatim>\<open>expf(float(x))\<close> is \<^term>\<open>exp x\<close>,
    \<^verbatim>\<open>sqrt\<close> is \<^term>\<open>sqrt\<close>). Rounding, infinities and NaN are outside the model, so
    results obtained by a division are only used where the divisor is not zero.
  \<^item> A C \<^verbatim>\<open>int\<close> is an \<^typ>\<open>int\<close>; no computation below comes near the 32-bit range.
  \<^item> A device array reached through a pointer is a total function from the index to the
    content (\<^typ>\<open>int \<Rightarrow> real\<close>, \<^typ>\<open>int \<Rightarrow> int\<close>); its allocated extent is a separate
    number, used where a property depends on it.
  \<^item> A small stack array (\<^verbatim>\<open>double normal[3]\<close>, \<^verbatim>\<open>double vet[3][3]\<close>) is a function
    from \<^typ>\<open>nat\<close> indices.
  \<^item> The three parallel component arrays of a vector field (\<^verbatim>\<open>g_x, g_y, g_z\<close>;
    \<^verbatim>\<open>g_fx, g_fy, g_fz\<close>; \<^verbatim>\<open>g_f12x, g_f12y, g_f12z\<close>), which the code always reads
    and writes together at one index, are one array of triples.
  \<^item> A kernel launch is the sequential composition of its threads, for the particle
    indices \<open>N1 \<le> n1 < N2\<close>; launches follow each other in the order of
    \<^verbatim>\<open>ILP::compute\<close>.
  \<^item> The per-atom virial accumulated by the kernels is not part of the model.
\<close>

type_synonym vec3 = "real \<times> real \<times> real"
type_synonym arr3 = "nat \<Rightarrow> real"
type_synonym arr33 = "nat \<Rightarrow> nat \<Rightarrow> real"
type_synonym arr333 = "nat \<Rightarrow> nat \<Rightarrow> nat \<Rightarrow> real"

section \<open>Taper function\<close>

text \<open>The constant table \<^verbatim>\<open>h_tap_coeff\<close> copied to \<^verbatim>\<open>Tap_coeff\<close> by the constructor.\<close>

definition Tap_coeff :: "real list" where
  "Tap_coeff = [1, 0, 0, 0, - 35, 84, - 70, 20]"

text \<open>\<^verbatim>\<open>calc_Tap(r_ij, Rcutinv)\<close>: Horner evaluation for \<open>i = 6, ..., 0\<close>.\<close>

definition calc_Tap :: "real \<Rightarrow> real \<Rightarrow> real" where
  "calc_Tap r_ij Rcutinv =
     (let r = r_ij * Rcutinv in
      if r \<ge> 1 then 0
      else fold (\<lambda>i Tap. Tap * r + Tap_coeff ! i) [6, 5, 4, 3, 2, 1, 0] (Tap_coeff ! 7))"

text \<open>\<^verbatim>\<open>calc_dTap(r_ij, Rcut, Rcutinv)\<close>: the loop runs for \<open>i = 6, ..., 1\<close>; the
  guard compares the reduced distance \<open>r\<close> with \<open>Rcut\<close>, as the source does.\<close>

definition calc_dTap :: "real \<Rightarrow> real \<Rightarrow> real \<Rightarrow> real" where
  "calc_dTap r_ij Rcut Rcutinv =
     (let r = r_ij * Rcutinv in
      if r \<ge> Rcut then 0
      else fold (\<lambda>i dTap. dTap * r + real i * Tap_coeff ! i) [6, 5, 4, 3, 2, 1]
             (7 * Tap_coeff ! 7) * Rcutinv)"

section \<open>Normal vector and its derivatives\<close>

record normal_state =
  normal :: arr3
  dnormdri :: arr33
  dnormal :: arr333

definition arr3_of :: "real \<Rightarrow> real \<Rightarrow> real \<Rightarrow> arr3" where
  "arr3_of a b c = (\<lambda>i. if i = 0 then a else if i = 1 then b else if i = 2 then c else 0)"

definition arr33_of :: "real list list \<Rightarrow> arr33" where
  "arr33_of rows = (\<lambda>i j. if i < 3 \<and> j < 3 then rows ! i ! j else 0)"

text \<open>The cross products \<open>pv12 = vet[0] \<times> vet[1]\<close>, \<open>pv31 = vet[2] \<times> vet[0]\<close> and
  \<open>pv23 = vet[1] \<times> vet[2]\<close>, component by component as the source writes them.\<close>

definition pv12 :: "arr33 \<Rightarrow> arr3" where
  "pv12 vet = arr3_of
     (vet 0 1 * vet 1 2 - vet 1 1 * vet 0 2)
     (vet 0 2 * vet 1 0 - vet 1 2 * vet 0 0)
     (vet 0 0 * vet 1 1 - vet 1 0 * vet 0 1)"

definition pv31 :: "arr33 \<Rightarrow> arr3" where
  "pv31 vet = arr3_of
     (vet 2 1 * vet 0 2 - vet 0 1 * vet 2 2)
     (vet 2 2 * vet 0 0 - vet 0 2 * vet 2 0)
     (vet 2 0 * vet 0 1 - vet 0 0 * vet 2 1)"

definition pv23 :: "arr33 \<Rightarrow> arr3" where
  "pv23 vet = arr3_of
     (vet 1 1 * vet 2 2 - vet 2 1 * vet 1 2)
     (vet 1 2 * vet 2 0 - vet 2 2 * vet 1 0)
     (vet 1 0 * vet 2 1 - vet 2 0 * vet 1 1)"

text \<open>\<open>dpvdri[id][ip]\<close> of the two-bond branch.\<close>

definition dpvdri :: "arr33 \<Rightarrow> arr33" where
  "dpvdri vet = arr33_of
     [[0, vet 0 2 - vet 1 2, vet 1 1 - vet 0 1],
      [vet 1 2 - vet 0 2, 0, vet 0 0 - vet 1 0],
      [vet 0 1 - vet 1 1, vet 1 0 - vet 0 0, 0]]"

text \<open>\<open>dpv12[id][ip][m]\<close>, \<open>dpv31[id][ip][m]\<close>, \<open>dpv23[id][ip][m]\<close>: the last index
  \<open>m\<close> is the neighbour; the slice of the neighbour that a product does not involve is zero.\<close>

definition dpv12 :: "arr33 \<Rightarrow> arr333" where
  "dpv12 vet = (\<lambda>id ip m.
     if m = 0 then arr33_of
       [[0, vet 1 2, - vet 1 1],
        [- vet 1 2, 0, vet 1 0],
        [vet 1 1, - vet 1 0, 0]] id ip
     else if m = 1 then arr33_of
       [[0, - vet 0 2, vet 0 1],
        [vet 0 2, 0, - vet 0 0],
        [- vet 0 1, vet 0 0, 0]] id ip
     else 0)"

definition dpv31 :: "arr33 \<Rightarrow> arr333" where
  "dpv31 vet = (\<lambda>id ip m.
     if m = 0 then arr33_of
       [[0, - vet 2 2, vet 2 1],
        [vet 2 2, 0, - vet 2 0],
        [- vet 2 1, vet 2 0, 0]] id ip
     else if m = 2 then arr33_of
       [[0, vet 0 2, - vet 0 1],
        [- vet 0 2, 0, vet 0 0],
        [vet 0 1, - vet 0 0, 0]] id ip
     else 0)"

definition dpv23 :: "arr33 \<Rightarrow> arr333" where
  "dpv23 vet = (\<lambda>id ip m.
     if m = 1 then arr33_of
       [[0, vet 2 2, - vet 2 1],
        [- vet 2 2, 0, vet 2 0],
        [vet 2 1, - vet 2 0, 0]] id ip
     else if m = 2 then arr33_of
       [[0, - vet 1 2, vet 1 1],
        [vet 1 2, 0, - vet 1 0],
        [- vet 1 1, vet 1 0, 0]] id ip
     else 0)"

text \<open>The part shared by the two-bond and the three-bond branch: from the non-normalised
  vector \<open>n1\<close> and its derivatives \<open>dn1\<close> to \<open>normal\<close> and \<open>dnormal\<close>.\<close>

definition nn_of :: "arr3 \<Rightarrow> real" where
  "nn_of n1 = sqrt (n1 0 * n1 0 + n1 1 * n1 1 + n1 2 * n1 2)"

definition dnn_of :: "arr3 \<Rightarrow> arr333 \<Rightarrow> real \<Rightarrow> arr33" where
  "dnn_of n1 dn1 nninv =
     (\<lambda>id m. (n1 0 * dn1 0 id m + n1 1 * dn1 1 id m + n1 2 * dn1 2 id m) * nninv)"

definition dnormal_of :: "arr3 \<Rightarrow> arr333 \<Rightarrow> real \<Rightarrow> arr333" where
  "dnormal_of n1 dn1 nninv =
     (\<lambda>id ip m. dn1 id ip m * nninv - n1 id * dnn_of n1 dn1 nninv ip m * nninv * nninv)"

text \<open>The three-bond average \<open>n1 = (pv12 + pv31 + pv23) * continv\<close> and its derivative.\<close>

definition n1_avg :: "arr33 \<Rightarrow> real \<Rightarrow> arr3" where
  "n1_avg vet continv = (\<lambda>id. (pv12 vet id + pv31 vet id + pv23 vet id) * continv)"

definition dn1_avg :: "arr33 \<Rightarrow> real \<Rightarrow> arr333" where
  "dn1_avg vet continv =
     (\<lambda>id ip m. (dpv12 vet id ip m + dpv23 vet id ip m + dpv31 vet id ip m) * continv)"

text \<open>\<^verbatim>\<open>calc_normal(vet, cont, normal, dnormdri, dnormal)\<close>. The three output arrays are
  passed by reference: the last branch (\<open>cont > 3\<close>) leaves them as the caller passed them.\<close>

definition calc_normal :: "arr33 \<Rightarrow> int \<Rightarrow> normal_state \<Rightarrow> normal_state" where
  "calc_normal vet cont st =
     (if cont \<le> 1 then
        \<lparr>normal = arr3_of 0 0 1, dnormdri = (\<lambda>id ip. 0), dnormal = (\<lambda>id ip m. 0)\<rparr>
      else if cont = 2 then
        (let n1 = pv12 vet;
             nn = nn_of n1;
             nninv = 1 / nn;
             dni = (\<lambda>ip. (n1 0 * dpvdri vet 0 ip + n1 1 * dpvdri vet 1 ip
                            + n1 2 * dpvdri vet 2 ip) * nninv)
         in \<lparr>normal = (\<lambda>id. n1 id * nninv),
             dnormdri = (\<lambda>id ip. dpvdri vet id ip * nninv - n1 id * dni ip * nninv * nninv),
             dnormal = dnormal_of n1 (dpv12 vet) nninv\<rparr>)
      else if cont = 3 then
        (let continv = 1 / real_of_int cont;
             n1 = n1_avg vet continv;
             nn = nn_of n1;
             nninv = 1 / nn
         in \<lparr>normal = (\<lambda>id. n1 id * nninv),
             dnormdri = (\<lambda>id ip. 0),
             dnormal = dnormal_of n1 (dn1_avg vet continv) nninv\<rparr>)
      else st)"

section \<open>Parameters and inputs of a force evaluation\<close>

text \<open>\<^verbatim>\<open>ILP_Para\<close>: one table per constant, indexed by the ordered pair of atom types.
  (The fields are prefixed: \<open>C\<close>, \<open>d\<close> and \<open>S\<close> alone would capture variable names.)\<close>

record ILP_Para =
  para_C :: "int \<Rightarrow> int \<Rightarrow> real"
  para_C_6 :: "int \<Rightarrow> int \<Rightarrow> real"
  para_d :: "int \<Rightarrow> int \<Rightarrow> real"
  para_d_Seff :: "int \<Rightarrow> int \<Rightarrow> real"
  para_epsilon :: "int \<Rightarrow> int \<Rightarrow> real"
  para_z0 :: "int \<Rightarrow> int \<Rightarrow> real"
  para_lambda :: "int \<Rightarrow> int \<Rightarrow> real"
  para_delta2inv :: "int \<Rightarrow> int \<Rightarrow> real"
  para_S :: "int \<Rightarrow> int \<Rightarrow> real"
  para_rcutsq_ilp :: "int \<Rightarrow> int \<Rightarrow> real"
  para_rcut_global :: "int \<Rightarrow> int \<Rightarrow> real"

text \<open>Modelled from the spec: the macro \<^verbatim>\<open>MAX_ILP_NEIGHBOR\<close> is declared in
  \<^verbatim>\<open>ilp.cuh\<close>, which is not among the sources. The spec gives the capacity as 3, the
  diagnostic of the builder prints "is greater than 3", and the kernels address exactly
  three many-body slots per atom.\<close>

definition MAX_ILP_NEIGHBOR :: int where
  "MAX_ILP_NEIGHBOR = 3"

text \<open>The extent the constructor gives the secondary list and the many-body buffer:
  \<^verbatim>\<open>ilp_NL.resize(num_atoms * MAX_ILP_NEIGHBOR)\<close>.\<close>

definition ilp_NL_size :: "int \<Rightarrow> int" where
  "ilp_NL_size num_atoms = num_atoms * MAX_ILP_NEIGHBOR"

text \<open>What the kernels read and never write. \<open>apply_mic\<close> stands for
  \<^verbatim>\<open>apply_mic(box, x12, y12, z12)\<close>: the box and its minimum-image folding are declared
  outside the sources and are a parameter here.\<close>

record ilp_input =
  number_of_particles :: int
  N1 :: int
  N2 :: int
  apply_mic :: "vec3 \<Rightarrow> vec3"
  g_neighbor_number :: "int \<Rightarrow> int"
  g_neighbor_list :: "int \<Rightarrow> int"
  g_type :: "int \<Rightarrow> int"
  group_label :: "int \<Rightarrow> int"
  g_pos :: "int \<Rightarrow> vec3"
  ilp_para :: ILP_Para

text \<open>The secondary (ILP) neighbour list, and the lines the builder prints: the count,
  the atom and the four entries \<open>nei1, ..., nei4\<close>.\<close>

record ilp_nl =
  ilp_neighbor_number :: "int \<Rightarrow> int"
  ilp_neighbor_list :: "int \<Rightarrow> int"
  ilp_printed :: "(int \<times> int \<times> int list) list"

text \<open>The arrays a force evaluation updates.\<close>

record ilp_state =
  g_force :: "int \<Rightarrow> vec3"
  g_potential :: "int \<Rightarrow> real"
  g_f12 :: "int \<Rightarrow> vec3"
  g_f12_ilp_neigh :: "int \<Rightarrow> vec3"

definition vadd :: "vec3 \<Rightarrow> vec3 \<Rightarrow> vec3" where
  "vadd a b = (case a of (ax, ay, az) \<Rightarrow> case b of (bx, by, bz) \<Rightarrow> (ax + bx, ay + by, az + bz))"

definition vsub :: "vec3 \<Rightarrow> vec3 \<Rightarrow> vec3" where
  "vsub a b = (case a of (ax, ay, az) \<Rightarrow> case b of (bx, by, bz) \<Rightarrow> (ax - bx, ay - by, az - bz))"

text \<open>The displacement \<open>(x12, y12, z12)\<close> from \<open>n1\<close> to \<open>n2\<close> after \<open>apply_mic\<close>, and a
  squared length.\<close>

definition mic_disp :: "ilp_input \<Rightarrow> int \<Rightarrow> int \<Rightarrow> vec3" where
  "mic_disp inp n1 n2 =
     (case g_pos inp n1 of (x1, y1, z1) \<Rightarrow> case g_pos inp n2 of (x2, y2, z2) \<Rightarrow>
        apply_mic inp (x2 - x1, y2 - y1, z2 - z1))"

definition norm_sq :: "vec3 \<Rightarrow> real" where
  "norm_sq v = (case v of (x12, y12, z12) \<Rightarrow> x12 * x12 + y12 * y12 + z12 * z12)"

section \<open>Secondary neighbour list builder\<close>

text \<open>One iteration of the loop of \<^verbatim>\<open>ILP_neighbor\<close> over the general neighbours of
  \<open>n1\<close>: the state is the list and \<open>count\<close>.\<close>

definition ILP_neighbor_step ::
  "ilp_input \<Rightarrow> int \<Rightarrow> int \<Rightarrow> (int \<Rightarrow> int) \<times> int \<Rightarrow> (int \<Rightarrow> int) \<times> int" where
  "ILP_neighbor_step inp n1 i1 = (\<lambda>(nl, count).
     let n2 = g_neighbor_list inp (n1 + number_of_particles inp * i1);
         d12sq = norm_sq (mic_disp inp n1 n2);
         rcutsq = para_rcutsq_ilp (ilp_para inp) (g_type inp n1) (g_type inp n2)
     in if group_label inp n1 = group_label inp n2 \<and> d12sq < rcutsq \<and> d12sq \<noteq> 0
        then (nl(count * number_of_particles inp + n1 := n2), count + 1)
        else (nl, count))"

text \<open>The thread of particle \<open>n1\<close>: the loop, the store of the count, and the
  diagnostic when the count is above the capacity.\<close>

definition ILP_neighbor_thread :: "ilp_input \<Rightarrow> int \<Rightarrow> ilp_nl \<Rightarrow> ilp_nl" where
  "ILP_neighbor_thread inp n1 st =
     (let N = number_of_particles inp;
          neighbor_number = g_neighbor_number inp n1;
          (nl, count) = fold (ILP_neighbor_step inp n1) [0..neighbor_number - 1]
                          (ilp_neighbor_list st, 0);
          st' = st\<lparr>ilp_neighbor_list := nl,
                   ilp_neighbor_number := (ilp_neighbor_number st)(n1 := count)\<rparr>
      in if count > MAX_ILP_NEIGHBOR
         then st'\<lparr>ilp_printed := ilp_printed st' @
                    [(count, n1, [nl (0 * N + n1), nl (1 * N + n1), nl (2 * N + n1),
                                  nl (3 * N + n1)])]\<rparr>
         else st')"

definition ILP_neighbor :: "ilp_input \<Rightarrow> ilp_nl \<Rightarrow> ilp_nl" where
  "ILP_neighbor inp st = fold (ILP_neighbor_thread inp) [N1 inp..N2 inp - 1] st"

section \<open>Force kernel\<close>

text \<open>\<^verbatim>\<open>calc_vdW\<close>: the pair \<open>(p2_vdW, f2_vdW)\<close>.\<close>

definition calc_vdW ::
  "real \<Rightarrow> real \<Rightarrow> real \<Rightarrow> real \<Rightarrow> real \<Rightarrow> real \<Rightarrow> real \<Rightarrow> real \<Rightarrow> real \<times> real" where
  "calc_vdW r rinv rsq d d_Seff C_6 Tap dTap =
     (let r2inv = 1 / rsq;
          r6inv = r2inv * r2inv * r2inv;
          r8inv = r2inv * r6inv;
          TSvdw = 1 + exp (- d_Seff * r + d);
          TSvdwinv = 1 / TSvdw;
          Vilp = - C_6 * r6inv * TSvdwinv;
          fpair = (- 6 + d_Seff * (TSvdw - 1) * TSvdwinv * r) * C_6 * TSvdwinv * r8inv;
          fsum = fpair * Tap - Vilp * dTap * rinv
      in (Tap * Vilp, fsum))"

text \<open>The loop that collects the bond vectors of \<open>n1\<close> into \<open>vet\<close> and counts them in
  \<open>cont\<close>.\<close>

definition bond_step ::
  "ilp_input \<Rightarrow> ilp_nl \<Rightarrow> int \<Rightarrow> int \<Rightarrow> arr33 \<times> int \<Rightarrow> arr33 \<times> int" where
  "bond_step inp nl n1 i1 = (\<lambda>(vet, cont).
     let n2_ilp = ilp_neighbor_list nl (n1 + number_of_particles inp * i1)
     in case mic_disp inp n1 n2_ilp of (x12, y12, z12) \<Rightarrow>
          (vet(nat cont := arr3_of x12 y12 z12), cont + 1))"

definition bond_vectors :: "ilp_input \<Rightarrow> ilp_nl \<Rightarrow> int \<Rightarrow> arr33 \<times> int" where
  "bond_vectors inp nl n1 =
     fold (bond_step inp nl n1) [0..ilp_neighbor_number nl n1 - 1] ((\<lambda>id ip. 0), 0)"

definition zero_normal :: normal_state where
  "zero_normal = \<lparr>normal = (\<lambda>id. 0), dnormdri = (\<lambda>id ip. 0), dnormal = (\<lambda>id ip m. 0)\<rparr>"

text \<open>What one iteration of the loop over the general neighbours contributes, for a
  neighbour that is not skipped: the increment of \<open>(s_fx, s_fy, s_fz)\<close>, the increment
  of \<open>s_pe\<close>, the vector \<open>(fkcx, fkcy, fkcz)\<close> stored in the pairwise buffer, and the
  vector \<open>fk\<close> of each secondary neighbour \<open>kk\<close>.\<close>

record pair_out =
  po_force :: vec3
  po_pe :: real
  po_fkc :: vec3
  po_fk :: "int \<Rightarrow> vec3"

text \<open>The body of that loop; \<open>None\<close> is the \<^verbatim>\<open>continue\<close>.\<close>

definition pair_body :: "ilp_input \<Rightarrow> normal_state \<Rightarrow> int \<Rightarrow> int \<Rightarrow> pair_out option" where
  "pair_body inp nrm n1 i1 =
     (let index = n1 + number_of_particles inp * i1;
          n2 = g_neighbor_list inp index;
          type1 = g_type inp n1;
          type2 = g_type inp n2;
          par = ilp_para inp
      in case mic_disp inp n1 n2 of (x12, y12, z12) \<Rightarrow>
     (let rsq = x12 * x12 + y12 * y12 + z12 * z12;
          r = sqrt rsq;
          Rcut = para_rcut_global par type1 type2
      in if r \<ge> Rcut \<or> group_label inp n1 = group_label inp n2 then None
         else
     (let Rcutinv = 1 / Rcut;
          rinv = 1 / r;
          Tap = calc_Tap r Rcutinv;
          dTap = calc_dTap r Rcut Rcutinv
      in case calc_vdW r rinv rsq (para_d par type1 type2) (para_d_Seff par type1 type2)
                (para_C_6 par type1 type2) Tap dTap of (p2_vdW, f2_vdW) \<Rightarrow>
     (let f12x = - f2_vdW * x12 * (1 / 2);
          f12y = - f2_vdW * y12 * (1 / 2);
          f12z = - f2_vdW * z12 * (1 / 2);
          f21x = - f12x;
          f21y = - f12y;
          f21z = - f12z;
          C = para_C par type1 type2;
          lambda' = para_lambda par type1 type2;
          delta2inv = para_delta2inv par type1 type2;
          epsilon = para_epsilon par type1 type2;
          z0 = para_z0 par type1 type2;
          delx = - x12;
          dely = - y12;
          delz = - z12;
          prodnorm1 = normal nrm 0 * delx + normal nrm 1 * dely + normal nrm 2 * delz;
          rhosq1 = rsq - prodnorm1 * prodnorm1;
          rdsq1 = rhosq1 * delta2inv;
          exp0 = exp (- lambda' * (r - z0));
          exp1 = exp (- rdsq1);
          frho1 = exp1 * C;
          Erep = (1 / 2) * epsilon + frho1;
          Vilp = exp0 * Erep;
          fpair = lambda' * exp0 * rinv * Erep;
          fpair1 = 2 * exp0 * frho1 * delta2inv;
          fsum = fpair + fpair1;
          prodnorm1_m_fpair1 = prodnorm1 * fpair1;
          Vilp_m_dTap_m_rinv = Vilp * dTap * rinv;
          dprodnorm1 = (\<lambda>ip. dnormdri nrm 0 ip * delx + dnormdri nrm 1 ip * dely
                               + dnormdri nrm 2 ip * delz);
          fp1 = (\<lambda>ip. prodnorm1_m_fpair1 * normal nrm ip);
          fprod1 = (\<lambda>ip. prodnorm1_m_fpair1 * dprodnorm1 ip);
          fkcx = (delx * fsum - fp1 0) * Tap - Vilp_m_dTap_m_rinv * delx;
          fkcy = (dely * fsum - fp1 1) * Tap - Vilp_m_dTap_m_rinv * dely;
          fkcz = (delz * fsum - fp1 2) * Tap - Vilp_m_dTap_m_rinv * delz;
          minus_prodnorm1_m_fpair1_m_Tap = - prodnorm1 * fpair1 * Tap;
          dprodnorm1_k = (\<lambda>kk ip. dnormal nrm 0 ip (nat kk) * delx
                                   + dnormal nrm 1 ip (nat kk) * dely
                                   + dnormal nrm 2 ip (nat kk) * delz)
      in Some \<lparr>po_force = (f12x - f21x + (fkcx - fprod1 0 * Tap),
                           f12y - f21y + (fkcy - fprod1 1 * Tap),
                           f12z - f21z + (fkcz - fprod1 2 * Tap)),
               po_pe = p2_vdW * (1 / 2) + Tap * Vilp,
               po_fkc = (fkcx, fkcy, fkcz),
               po_fk = (\<lambda>kk. (minus_prodnorm1_m_fpair1_m_Tap * dprodnorm1_k kk 0,
                                minus_prodnorm1_m_fpair1_m_Tap * dprodnorm1_k kk 1,
                                minus_prodnorm1_m_fpair1_m_Tap * dprodnorm1_k kk 2))\<rparr>))))"

text \<open>The running values of a thread of the force kernel: \<open>(s_fx, s_fy, s_fz)\<close>,
  \<open>s_pe\<close>, the local accumulator \<open>fk_temp[9]\<close> (slot \<open>kk\<close> holds its three components
  at \<open>kk\<close>, \<open>kk + 3\<close> and \<open>kk + 6\<close>), and the pairwise buffer, which the loop writes.\<close>

record force_acc =
  s_f :: vec3
  s_pe :: real
  fk_temp :: "int \<Rightarrow> real"
  acc_f12 :: "int \<Rightarrow> vec3"

definition fk_step :: "(int \<Rightarrow> vec3) \<Rightarrow> int \<Rightarrow> (int \<Rightarrow> real) \<Rightarrow> (int \<Rightarrow> real)" where
  "fk_step fk kk ft =
     (case fk kk of (fk0, fk1, fk2) \<Rightarrow>
        ft(kk := ft kk + fk0, kk + 3 := ft (kk + 3) + fk1, kk + 6 := ft (kk + 6) + fk2))"

definition pair_step ::
  "ilp_input \<Rightarrow> normal_state \<Rightarrow> int \<Rightarrow> int \<Rightarrow> int \<Rightarrow> force_acc \<Rightarrow> force_acc" where
  "pair_step inp nrm ilp_nn n1 i1 acc =
     (case pair_body inp nrm n1 i1 of
        None \<Rightarrow> acc
      | Some po \<Rightarrow>
          acc\<lparr>s_f := vadd (s_f acc) (po_force po),
              s_pe := s_pe acc + po_pe po,
              acc_f12 := (acc_f12 acc)(n1 + number_of_particles inp * i1 := po_fkc po),
              fk_temp := fold (fk_step (po_fk po)) [0..ilp_nn - 1] (fk_temp acc)\<rparr>)"

text \<open>The thread of particle \<open>n1\<close> of \<^verbatim>\<open>gpu_find_force\<close>.\<close>

definition find_force_normal :: "ilp_input \<Rightarrow> ilp_nl \<Rightarrow> int \<Rightarrow> normal_state" where
  "find_force_normal inp nl n1 =
     (case bond_vectors inp nl n1 of (vet, cont) \<Rightarrow> calc_normal vet cont zero_normal)"

definition find_force_acc :: "ilp_input \<Rightarrow> ilp_nl \<Rightarrow> int \<Rightarrow> ilp_state \<Rightarrow> force_acc" where
  "find_force_acc inp nl n1 st =
     fold (pair_step inp (find_force_normal inp nl n1) (ilp_neighbor_number nl n1) n1)
       [0..g_neighbor_number inp n1 - 1]
       \<lparr>s_f = (0, 0, 0), s_pe = 0, fk_temp = (\<lambda>k. 0), acc_f12 = g_f12 st\<rparr>"

definition find_force_thread :: "ilp_input \<Rightarrow> ilp_nl \<Rightarrow> int \<Rightarrow> ilp_state \<Rightarrow> ilp_state" where
  "find_force_thread inp nl n1 st =
     (let N = number_of_particles inp;
          acc = find_force_acc inp nl n1 st;
          ft = fk_temp acc
      in st\<lparr>g_force := (g_force st)(n1 := vadd (g_force st n1) (s_f acc)),
            g_f12 := acc_f12 acc,
            g_f12_ilp_neigh := (g_f12_ilp_neigh st)
               (n1 := (ft 0, ft 3, ft 6),
                n1 + N := (ft 1, ft 4, ft 7),
                n1 + 2 * N := (ft 2, ft 5, ft 8)),
            g_potential := (g_potential st)(n1 := g_potential st n1 + s_pe acc)\<rparr>)"

definition gpu_find_force :: "ilp_input \<Rightarrow> ilp_nl \<Rightarrow> ilp_state \<Rightarrow> ilp_state" where
  "gpu_find_force inp nl st = fold (find_force_thread inp nl) [N1 inp..N2 inp - 1] st"

text \<open>\<^verbatim>\<open>init_ILP_temp_data\<close>: the three many-body slots of \<open>n1\<close> are zeroed; the lines
  that would zero the pairwise buffer are commented out in the source.\<close>

definition init_ILP_temp_thread :: "ilp_input \<Rightarrow> int \<Rightarrow> ilp_state \<Rightarrow> ilp_state" where
  "init_ILP_temp_thread inp n1 st =
     (let N = number_of_particles inp
      in st\<lparr>g_f12_ilp_neigh := (g_f12_ilp_neigh st)
               (n1 := (0, 0, 0), n1 + N := (0, 0, 0), n1 + N + N := (0, 0, 0))\<rparr>)"

definition init_ILP_temp_data :: "ilp_input \<Rightarrow> ilp_state \<Rightarrow> ilp_state" where
  "init_ILP_temp_data inp st = fold (init_ILP_temp_thread inp) [N1 inp..N2 inp - 1] st"

section \<open>Many-body reduction pass\<close>

text \<open>The search loop of \<^verbatim>\<open>reduce_force_many_body\<close> for the slot of \<open>n1\<close> in the list
  of \<open>n2\<close>; \<open>lst m\<close> is \<^verbatim>\<open>g_neighbor_list[n2 + number_of_particles * m]\<close>. The result is the
  value of \<open>m\<close> when the loop ends, which the source assigns to \<open>offset\<close>.\<close>

function reduce_search :: "(int \<Rightarrow> int) \<Rightarrow> int \<Rightarrow> int \<Rightarrow> int \<Rightarrow> int \<Rightarrow> int" where
  "reduce_search lst n1 l r m =
     (if l < r then
        (let m' = (l + r) div 2;
             tmp_value = lst m'
         in if tmp_value > n1 then reduce_search lst n1 l (m' - 1) m'
            else if tmp_value < n1 then reduce_search lst n1 (m' + 1) r m'
            else m')
      else m)"
  by pat_completeness auto
termination
  by (relation "measure (\<lambda>(lst, n1, l, r, m). nat (r - l))") auto

text \<open>The index of the pairwise buffer that the thread of \<open>n1\<close> reads for its \<open>i1\<close>-th
  general neighbour.\<close>

definition reduce_pair_index :: "ilp_input \<Rightarrow> int \<Rightarrow> int \<Rightarrow> int" where
  "reduce_pair_index inp n1 i1 =
     (let N = number_of_particles inp;
          n2 = g_neighbor_list inp (n1 + N * i1);
          neighor_number_2 = g_neighbor_number inp n2;
          offset = reduce_search (\<lambda>m. g_neighbor_list inp (n2 + N * m)) n1 0 neighor_number_2 0
      in n2 + N * offset)"

text \<open>The index of the many-body buffer read for the \<open>i1\<close>-th secondary neighbour: a
  linear search that keeps \<open>offset = 0\<close> when nothing is found. Its bound is read from
  \<^verbatim>\<open>g_neighbor_number[n2]\<close>, as in the source.\<close>

definition reduce_ilp_index :: "ilp_input \<Rightarrow> ilp_nl \<Rightarrow> int \<Rightarrow> int \<Rightarrow> int" where
  "reduce_ilp_index inp nl n1 i1 =
     (let N = number_of_particles inp;
          n2 = ilp_neighbor_list nl (n1 + N * i1);
          ilp_neighor_number_2 = g_neighbor_number inp n2;
          offset = (case find (\<lambda>k. n1 = ilp_neighbor_list nl (n2 + N * k))
                           [0..ilp_neighor_number_2 - 1] of
                      Some k \<Rightarrow> k | None \<Rightarrow> 0)
      in n2 + N * offset)"

definition reduce_thread :: "ilp_input \<Rightarrow> ilp_nl \<Rightarrow> int \<Rightarrow> ilp_state \<Rightarrow> ilp_state" where
  "reduce_thread inp nl n1 st =
     (let s1 = fold (\<lambda>i1 s. vsub s (g_f12 st (reduce_pair_index inp n1 i1)))
                 [0..g_neighbor_number inp n1 - 1] (0, 0, 0);
          s2 = fold (\<lambda>i1 s. vadd s (g_f12_ilp_neigh st (reduce_ilp_index inp nl n1 i1)))
                 [0..ilp_neighbor_number nl n1 - 1] s1
      in st\<lparr>g_force := (g_force st)(n1 := vadd (g_force st n1) s2)\<rparr>)"

definition reduce_force_many_body :: "ilp_input \<Rightarrow> ilp_nl \<Rightarrow> ilp_state \<Rightarrow> ilp_state" where
  "reduce_force_many_body inp nl st = fold (reduce_thread inp nl) [N1 inp..N2 inp - 1] st"

section \<open>One force evaluation\<close>

text \<open>\<^verbatim>\<open>ILP::compute\<close> after \<^verbatim>\<open>find_neighbor\<close> (whose result is the general list of the
  input): the secondary list is zero-filled over its extent and rebuilt, the temporary data
  are initialised, and the two passes run.\<close>

definition fill_zero :: "int \<Rightarrow> (int \<Rightarrow> int) \<Rightarrow> (int \<Rightarrow> int)" where
  "fill_zero n a = (\<lambda>i. if 0 \<le> i \<and> i < n then 0 else a i)"

definition compute_neighbor :: "ilp_input \<Rightarrow> ilp_nl \<Rightarrow> ilp_nl" where
  "compute_neighbor inp nl =
     ILP_neighbor inp
       (nl\<lparr>ilp_neighbor_list :=
              fill_zero (ilp_NL_size (number_of_particles inp)) (ilp_neighbor_list nl),
           ilp_neighbor_number :=
              fill_zero (number_of_particles inp) (ilp_neighbor_number nl)\<rparr>)"

definition compute_passes :: "ilp_input \<Rightarrow> ilp_nl \<Rightarrow> ilp_state \<Rightarrow> ilp_state" where
  "compute_passes inp nl st = gpu_find_force inp nl (init_ILP_temp_data inp st)"

definition compute :: "ilp_input \<Rightarrow> ilp_nl \<Rightarrow> ilp_state \<Rightarrow> ilp_state" where
  "compute inp nl st =
     (let nl' = compute_neighbor inp nl
      in reduce_force_many_body inp nl' (compute_passes inp nl' st))"

section \<open>Block-temperature sampler\<close>

text \<open>The sampler of \<^verbatim>\<open>heat.cu\<close>. Step numbers, counts and sizes are C \<^verbatim>\<open>int\<close>s that are
  never negative, modelled by \<^typ>\<open>nat\<close> (on which \<open>div\<close> and \<open>mod\<close> are C's \<open>/\<close> and
  \<open>%\<close>). \<open>K_B\<close> is the double-precision value \<^verbatim>\<open>8.617343e-5\<close>.\<close>

definition DIM :: nat where
  "DIM = 3"

definition K_B :: real where
  "K_B = 8617343 / 100000000000"

record Parameters =
  number_of_groups :: nat
  number_of_steps :: nat

record Atom =
  group_size :: "nat \<Rightarrow> nat"
  group_size_sum :: "nat \<Rightarrow> nat"
  group_contents :: "nat \<Rightarrow> nat"
  mass :: "nat \<Rightarrow> real"
  vx :: "nat \<Rightarrow> real"
  vy :: "nat \<Rightarrow> real"
  vz :: "nat \<Rightarrow> real"

text \<open>The members of \<^verbatim>\<open>Heat\<close>: \<open>group_temp\<close> is the buffer and \<open>group_temp_num\<close> the number
  of entries that \<^verbatim>\<open>MY_MALLOC\<close> gave it.\<close>

record Heat =
  sample :: bool
  sample_interval :: nat
  group_temp :: "nat \<Rightarrow> real"
  group_temp_num :: nat

definition preprocess_heat :: "Parameters \<Rightarrow> Heat \<Rightarrow> Heat" where
  "preprocess_heat para h =
     (if sample h then
        h\<lparr>group_temp_num :=
             (number_of_groups para + 2) * (number_of_steps para div sample_interval h)\<rparr>
      else h)"

text \<open>\<^verbatim>\<open>find_group_temp\<close>, one block of 256 threads per group \<open>bid\<close>: \<open>thread_ke\<close> is
  \<open>s_ke[tid]\<close> after the loop over the patches.\<close>

definition thread_ke :: "Atom \<Rightarrow> nat \<Rightarrow> nat \<Rightarrow> real" where
  "thread_ke atom bid tid =
     (let size_of_group = group_size atom bid;
          offset = group_size_sum atom bid;
          number_of_patches = (size_of_group - 1) div 256 + 1
      in fold (\<lambda>patch s.
                 let k = tid + patch * 256
                 in if k < size_of_group then
                      (let n = group_contents atom (offset + k)
                       in s + mass atom n
                              * (vx atom n * vx atom n + vy atom n * vy atom n
                                 + vz atom n * vz atom n))
                    else s)
           [0..<number_of_patches] 0)"

text \<open>One step of the tree reduction: the threads \<open>t < active\<close> add \<open>s[t + stride]\<close> to
  \<open>s[t]\<close> together (the steps are separated by \<^verbatim>\<open>__syncthreads\<close>, or run in lockstep
  inside \<^verbatim>\<open>warp_reduce\<close>).\<close>

definition reduce_step :: "nat \<times> nat \<Rightarrow> (nat \<Rightarrow> real) \<Rightarrow> (nat \<Rightarrow> real)" where
  "reduce_step p s = (case p of (active, stride) \<Rightarrow>
     (\<lambda>t. if t < active then s t + s (t + stride) else s t))"

definition find_group_temp :: "Atom \<Rightarrow> nat \<Rightarrow> real" where
  "find_group_temp atom bid =
     (let s_ke = fold reduce_step
                   [(128, 128), (64, 64), (32, 32), (32, 16), (32, 8), (32, 4), (32, 2), (32, 1)]
                   (thread_ke atom bid)
      in s_ke 0 / (real DIM * K_B * real (group_size atom bid)))"

text \<open>\<^verbatim>\<open>Heat::sample_block_temperature\<close>; \<open>energy_transferred\<close> is the pair
  \<^verbatim>\<open>integrate->ensemble->energy_transferred[0..1]\<close>.\<close>

definition sample_block_temperature ::
  "nat \<Rightarrow> Parameters \<Rightarrow> Atom \<Rightarrow> real \<times> real \<Rightarrow> Heat \<Rightarrow> Heat" where
  "sample_block_temperature step para atom energy_transferred h =
     (if sample h then
        (if step mod sample_interval h = 0 then
           (let Ng = number_of_groups para;
                offset = (step div sample_interval h) * (Ng + 2);
                copied = (\<lambda>i. if offset \<le> i \<and> i < offset + Ng
                               then find_group_temp atom (i - offset) else group_temp h i)
            in h\<lparr>group_temp := copied
                    (offset + Ng := fst energy_transferred,
                     offset + Ng + 1 := snd energy_transferred)\<rparr>)
         else h)
      else h)"

text \<open>\<^verbatim>\<open>Heat::postprocess_heat\<close>: the text appended to \<^verbatim>\<open>temperature.out\<close>. \<open>fmt\<close> stands
  for the C library's rendering of a double under \<^verbatim>\<open>%15.6e\<close>.\<close>

definition heat_line :: "(real \<Rightarrow> string) \<Rightarrow> nat \<Rightarrow> Heat \<Rightarrow> nat \<Rightarrow> string" where
  "heat_line fmt Ng h nt =
     concat (map (\<lambda>k. fmt (group_temp h (nt * (Ng + 2) + k))) [0..<Ng + 2]) @ [CHR 0x0A]"

definition postprocess_heat :: "(real \<Rightarrow> string) \<Rightarrow> Parameters \<Rightarrow> Heat \<Rightarrow> string \<Rightarrow> string" where
  "postprocess_heat fmt para h file =
     (if sample h then
        (let Nt = number_of_steps para div sample_interval h;
             Ng = number_of_groups para
         in file @ concat (map (heat_line fmt Ng h) [0..<Nt]))
      else file)"

section \<open>Concrete systems\<close>

text \<open>A parameter table with the same entry for every pair of types.\<close>

definition const_para :: ILP_Para where
  "const_para =
     \<lparr>para_C = (\<lambda>t1 t2. 1), para_C_6 = (\<lambda>t1 t2. 1), para_d = (\<lambda>t1 t2. 0),
      para_d_Seff = (\<lambda>t1 t2. 0), para_epsilon = (\<lambda>t1 t2. 2), para_z0 = (\<lambda>t1 t2. 1),
      para_lambda = (\<lambda>t1 t2. 0), para_delta2inv = (\<lambda>t1 t2. 1), para_S = (\<lambda>t1 t2. 1),
      para_rcutsq_ilp = (\<lambda>t1 t2. 4), para_rcut_global = (\<lambda>t1 t2. 4)\<rparr>"

text \<open>Three atoms stacked along \<open>z\<close> at heights 0, 1 and 2, each a layer (group) of its
  own, all within the global cutoff 4 of each other. The general lists, sorted by index, are
  \<open>[1, 2]\<close>, \<open>[0, 2]\<close> and \<open>[0, 1]\<close>; entry \<open>i1\<close> of atom \<open>n1\<close> is at \<open>n1 + 3 * i1\<close>.\<close>

definition three_layers :: ilp_input where
  "three_layers =
     \<lparr>number_of_particles = 3, N1 = 0, N2 = 3, apply_mic = (\<lambda>v. v),
      g_neighbor_number = (\<lambda>n. 2),
      g_neighbor_list = (\<lambda>i. [1, 0, 0, 2, 2, 1] ! nat i),
      g_type = (\<lambda>n. 0), group_label = (\<lambda>n. n),
      g_pos = (\<lambda>n. (0, 0, real_of_int n)),
      ilp_para = const_para\<rparr>"

text \<open>Two atoms at heights 0 and 1 in different groups, each the only neighbour of the
  other.\<close>

definition two_layers :: ilp_input where
  "two_layers =
     \<lparr>number_of_particles = 2, N1 = 0, N2 = 2, apply_mic = (\<lambda>v. v),
      g_neighbor_number = (\<lambda>n. 1),
      g_neighbor_list = (\<lambda>i. [1, 0] ! nat i),
      g_type = (\<lambda>n. 0), group_label = (\<lambda>n. n),
      g_pos = (\<lambda>n. (0, 0, real_of_int n)),
      ilp_para = const_para\<rparr>"

text \<open>Two atoms of one group at distance 1 along \<open>x\<close>.\<close>

definition one_layer_pair :: ilp_input where
  "one_layer_pair =
     \<lparr>number_of_particles = 2, N1 = 0, N2 = 2, apply_mic = (\<lambda>v. v),
      g_neighbor_number = (\<lambda>n. 1),
      g_neighbor_list = (\<lambda>i. [1, 0] ! nat i),
      g_type = (\<lambda>n. 0), group_label = (\<lambda>n. 0),
      g_pos = (\<lambda>n. (real_of_int n, 0, 0)),
      ilp_para = const_para\<rparr>"

text \<open>Two distinct atoms of one group at the same position.\<close>

definition coincident_pair :: ilp_input where
  "coincident_pair =
     \<lparr>number_of_particles = 2, N1 = 0, N2 = 2, apply_mic = (\<lambda>v. v),
      g_neighbor_number = (\<lambda>n. 1),
      g_neighbor_list = (\<lambda>i. [1, 0] ! nat i),
      g_type = (\<lambda>n. 0), group_label = (\<lambda>n. 0),
      g_pos = (\<lambda>n. (0, 0, 0)),
      ilp_para = const_para\<rparr>"

text \<open>Five atoms of one group: atom 0 at the origin and atoms 1 to 4 at distance 1 from
  it along \<open>\<plusminus>x\<close> and \<open>\<plusminus>y\<close>. Every atom has the four others as general neighbours (sorted by
  index); the four outer atoms are within the secondary cutoff 2 of atom 0.\<close>

definition crowded_layer :: ilp_input where
  "crowded_layer =
     \<lparr>number_of_particles = 5, N1 = 0, N2 = 5, apply_mic = (\<lambda>v. v),
      g_neighbor_number = (\<lambda>n. 4),
      g_neighbor_list =
        (\<lambda>i. [1, 0, 0, 0, 0, 2, 2, 1, 1, 1, 3, 3, 3, 2, 2, 4, 4, 4, 4, 3] ! nat i),
      g_type = (\<lambda>n. 0), group_label = (\<lambda>n. 0),
      g_pos = (\<lambda>n. [(0, 0, 0), (1, 0, 0), (- 1, 0, 0), (0, 1, 0), (0, - 1, 0)] ! nat n),
      ilp_para = const_para\<rparr>"

text \<open>The polynomial branch of \<open>calc_dTap\<close> on its own: the loop and the final
  multiplication by \<open>Rcutinv\<close>, for a reduced distance \<open>r\<close>.\<close>

definition dTap_poly :: "real \<Rightarrow> real \<Rightarrow> real" where
  "dTap_poly r Rcutinv =
     fold (\<lambda>i dTap. dTap * r + real i * Tap_coeff ! i) [6, 5, 4, 3, 2, 1] (7 * Tap_coeff ! 7)
       * Rcutinv"

text \<open>Two atoms in different groups at distance \<open>3 / 10\<close> along \<open>z\<close>, each the only
  neighbour of the other, with the global cutoff \<open>1 / 2\<close> (and the secondary cutoff
  \<open>1 / 4\<close>).\<close>

definition short_cutoff_pair :: ilp_input where
  "short_cutoff_pair =
     \<lparr>number_of_particles = 2, N1 = 0, N2 = 2, apply_mic = (\<lambda>v. v),
      g_neighbor_number = (\<lambda>n. 1),
      g_neighbor_list = (\<lambda>i. [1, 0] ! nat i),
      g_type = (\<lambda>n. 0), group_label = (\<lambda>n. n),
      g_pos = (\<lambda>n. (0, 0, real_of_int n * (3 / 10))),
      ilp_para = const_para\<lparr>para_rcutsq_ilp := (\<lambda>t1 t2. 1 / 16),
                            para_rcut_global := (\<lambda>t1 t2. 1 / 2)\<rparr>\<rparr>"

text \<open>Three atoms of group 0 at the corners \<open>(0, 0, 0)\<close>, \<open>(1, 0, 0)\<close>, \<open>(0, 1, 0)\<close> of a
  triangle and one atom of group 1 at \<open>(0, 0, 1)\<close>; every atom has the three others as general
  neighbours (sorted by index).\<close>

definition triangle_and_top :: ilp_input where
  "triangle_and_top =
     \<lparr>number_of_particles = 4, N1 = 0, N2 = 4, apply_mic = (\<lambda>v. v),
      g_neighbor_number = (\<lambda>n. 3),
      g_neighbor_list = (\<lambda>i. [1, 0, 0, 0, 2, 2, 1, 1, 3, 3, 3, 2] ! nat i),
      g_type = (\<lambda>n. 0), group_label = (\<lambda>n. if n = 3 then 1 else 0),
      g_pos = (\<lambda>n. [(0, 0, 0), (1, 0, 0), (0, 1, 0), (0, 0, 1)] ! nat n),
      ilp_para = const_para\<rparr>"

text \<open>A secondary list before any build.\<close>

definition blank_nl :: ilp_nl where
  "blank_nl = \<lparr>ilp_neighbor_number = (\<lambda>i. 0), ilp_neighbor_list = (\<lambda>i. 0), ilp_printed = []\<rparr>"

text \<open>The test of the builder on a pair, and the general-neighbour entries of \<open>n1\<close> that
  pass it, in the order of the general list (used to state what the builder's loop
  computes).\<close>

definition ILP_keep :: "ilp_input \<Rightarrow> int \<Rightarrow> int \<Rightarrow> bool" where
  "ILP_keep inp n1 n2 =
     (group_label inp n1 = group_label inp n2
      \<and> norm_sq (mic_disp inp n1 n2)
            < para_rcutsq_ilp (ilp_para inp) (g_type inp n1) (g_type inp n2)
      \<and> norm_sq (mic_disp inp n1 n2) \<noteq> 0)"

definition kept_entries :: "ilp_input \<Rightarrow> int \<Rightarrow> int list" where
  "kept_entries inp n1 =
     filter (ILP_keep inp n1)
       (map (\<lambda>i1. g_neighbor_list inp (n1 + number_of_particles inp * i1))
          [0..g_neighbor_number inp n1 - 1])"

text \<open>Buffers and outputs before any evaluation.\<close>

definition blank_state :: ilp_state where
  "blank_state = \<lparr>g_force = (\<lambda>n. (0, 0, 0)), g_potential = (\<lambda>n. 0),
     g_f12 = (\<lambda>i. (0, 0, 0)), g_f12_ilp_neigh = (\<lambda>i. (0, 0, 0))\<rparr>"

text \<open>The normal state that \<open>calc_normal\<close> returns for fewer than two bonds.\<close>

definition default_normal :: normal_state where
  "default_normal = \<lparr>normal = arr3_of 0 0 1, dnormdri = (\<lambda>id ip. 0), dnormal = (\<lambda>id ip m. 0)\<rparr>"

text \<open>The nine constants that the force kernel reads for an ordered pair of types.\<close>

definition para_entry :: "ILP_Para \<Rightarrow> int \<Rightarrow> int \<Rightarrow> real list" where
  "para_entry par t1 t2 =
     [para_C par t1 t2, para_C_6 par t1 t2, para_d par t1 t2, para_d_Seff par t1 t2,
      para_epsilon par t1 t2, para_z0 par t1 t2, para_lambda par t1 t2,
      para_delta2inv par t1 t2, para_rcut_global par t1 t2]"

text \<open>What the two passes add to the force on \<open>n1\<close> on account of its \<open>i1\<close>-th general
  neighbour: the increment of \<open>(s_fx, s_fy, s_fz)\<close> in iteration \<open>i1\<close> of the force kernel
  (nothing when the neighbour is skipped), minus the pairwise-buffer entry that iteration
  \<open>i1\<close> of the reduction pass reads and subtracts.\<close>

definition pair_force_total :: "ilp_input \<Rightarrow> ilp_nl \<Rightarrow> ilp_state \<Rightarrow> int \<Rightarrow> int \<Rightarrow> vec3" where
  "pair_force_total inp nl st n1 i1 =
     vsub (case pair_body inp (find_force_normal inp nl n1) n1 i1 of
             None \<Rightarrow> (0, 0, 0) | Some po \<Rightarrow> po_force po)
          (g_f12 (compute_passes inp nl st) (reduce_pair_index inp n1 i1))"

text \<open>Three bond vectors, and a reordering of the rows of \<open>vet\<close>: row \<open>i\<close> of the result
  is row \<open>p ! i\<close> of \<open>vet\<close>.\<close>

definition tripod :: arr33 where
  "tripod = arr33_of [[1, 0, 0], [0, 1, 0], [- 1, - 1, 0]]"


text \<open>A run of five steps sampled every second step, with one group.\<close>

definition five_steps :: Parameters where
  "five_steps = \<lparr>number_of_groups = 1, number_of_steps = 5\<rparr>"

text \<open>The summand of the kinetic energy of group \<open>bid\<close> for its \<open>k\<close>-th member,
  \<open>m * (vx\<^sup>2 + vy\<^sup>2 + vz\<^sup>2)\<close>, and a sampler that is switched on with interval 2.\<close>

definition ke_term :: "Atom \<Rightarrow> nat \<Rightarrow> nat \<Rightarrow> real" where
  "ke_term atom bid k =
     (let n = group_contents atom (group_size_sum atom bid + k)
      in mass atom n * (vx atom n * vx atom n + vy atom n * vy atom n + vz atom n * vz atom n))"

definition sampling_every_second :: "(nat \<Rightarrow> real) \<Rightarrow> Heat" where
  "sampling_every_second buf =
     \<lparr>sample = True, sample_interval = 2, group_temp = buf, group_temp_num = 0\<rparr>"

section \<open>Properties\<close>

subsection \<open>Taper function\<close>

lemma calc_Tap_zero_beyond_cutoff:
  "0 < Rcut \<Longrightarrow> Rcut \<le> r_ij \<Longrightarrow> calc_Tap r_ij (1 / Rcut) = 0"
  by (simp add: calc_Tap_def)

text \<open>The derivative evaluator compares the reduced distance \<open>r_ij * Rcutinv\<close> with
  \<open>Rcut\<close>; below that bound it returns the polynomial branch.\<close>

lemma calc_dTap_branches:
  "calc_dTap r_ij Rcut Rcutinv =
     (if r_ij * Rcutinv \<ge> Rcut then 0 else dTap_poly (r_ij * Rcutinv) Rcutinv)"
  by (simp add: calc_dTap_def dTap_poly_def Let_def)

subsection \<open>Reciprocal-slot search\<close>

text \<open>
  Claim C3 says that for a general neighbour \<open>n2\<close> of \<open>n1\<close> whose own list is sorted and
  contains \<open>n1\<close>, the search of the reduction pass returns the position of \<open>n1\<close> in that
  list. In the three-layer stack the second neighbour of atom 0 is atom 2, whose list is the
  sorted \<open>[0, 1]\<close>; the search for 0 ends with offset 1 (the first probe is position 1, and
  \<open>r = m - 1\<close> then closes the half-open interval before position 0 is looked at), so the
  thread of atom 0 reads buffer index 5, the slot that atom 2 wrote for atom 1.
\<close>

theorem reduce_search_wrong_slot:
  "g_neighbor_list three_layers (0 + 3 * 1) = 2
   \<and> map (\<lambda>m. g_neighbor_list three_layers (2 + 3 * m)) [0, 1] = [0, 1]
   \<and> reduce_search (\<lambda>m. g_neighbor_list three_layers (2 + 3 * m)) 0 0
        (g_neighbor_number three_layers 2) 0 = 1
   \<and> reduce_pair_index three_layers 0 1 = 5
   \<and> g_neighbor_list three_layers 5 = 1"
  by (simp add: three_layers_def reduce_pair_index_def Let_def)

subsection \<open>Normal vector\<close>

lemma unit_normalised:
  assumes "nn_of n1 \<noteq> 0"
  shows "nn_of (\<lambda>id. n1 id / nn_of n1) = 1"
proof -
  define S where "S = n1 0 * n1 0 + n1 1 * n1 1 + n1 2 * n1 2"
  have nn: "nn_of n1 = sqrt S"
    by (simp add: nn_of_def S_def)
  have "0 \<le> S"
    by (simp add: S_def)
  then have sq: "sqrt S * sqrt S = S"
    by simp
  have nz: "S \<noteq> 0"
    using assms nn by auto
  have e: "x / sqrt S * (x / sqrt S) = x * x / S" for x
    by (simp only: times_divide_times_eq sq)
  have "n1 0 * n1 0 / S + n1 1 * n1 1 / S + n1 2 * n1 2 / S = S / S"
    by (simp only: S_def add_divide_distrib)
  also have "\<dots> = 1"
    using nz by simp
  finally have "sqrt (n1 0 / sqrt S * (n1 0 / sqrt S) + n1 1 / sqrt S * (n1 1 / sqrt S)
          + n1 2 / sqrt S * (n1 2 / sqrt S)) = 1"
    by (simp only: e real_sqrt_one)
  then show ?thesis
    unfolding nn unfolding nn_of_def .
qed

text \<open>
  Claim C8: with 0 or 1 bond vectors the calculator returns exactly \<open>(0, 0, 1)\<close> and
  all-zero derivative tensors; with 2 or 3 bond vectors whose (averaged) cross product
  \<open>n1\<close> has non-zero magnitude \<open>nn\<close>, the returned normal has Euclidean norm 1.
\<close>

theorem calc_normal_default_and_unit:
  "(cont \<le> 1 \<longrightarrow>
      normal (calc_normal vet cont st) = arr3_of 0 0 1
      \<and> (\<forall>id ip. dnormdri (calc_normal vet cont st) id ip = 0)
      \<and> (\<forall>id ip m. dnormal (calc_normal vet cont st) id ip m = 0))
   \<and> (cont = 2 \<and> nn_of (pv12 vet) \<noteq> 0 \<longrightarrow> nn_of (normal (calc_normal vet cont st)) = 1)
   \<and> (cont = 3 \<and> nn_of (n1_avg vet (1 / 3)) \<noteq> 0 \<longrightarrow>
        nn_of (normal (calc_normal vet cont st)) = 1)"
  by (simp add: calc_normal_def Let_def unit_normalised del: One_nat_def)

lemma tripod_n1: "n1_avg tripod (1 / 3) = arr3_of 0 0 1"
  by (simp add: fun_eq_iff n1_avg_def pv12_def pv31_def pv23_def arr3_of_def tripod_def
      arr33_of_def)

lemma tripod_nn: "nn_of (n1_avg tripod (1 / 3)) = 1"
  by (simp add: tripod_n1 nn_of_def arr3_of_def)


theorem calc_normal_default_and_unit_witness:
  "normal (calc_normal tripod 0 zero_normal) = arr3_of 0 0 1
   \<and> (\<forall>id ip m. dnormal (calc_normal tripod 0 zero_normal) id ip m = 0)
   \<and> nn_of (pv12 tripod) \<noteq> 0
   \<and> nn_of (normal (calc_normal tripod 2 zero_normal)) = 1
   \<and> nn_of (n1_avg tripod (1 / 3)) \<noteq> 0
   \<and> nn_of (normal (calc_normal tripod 3 zero_normal)) = 1"
proof -
  have a: "nn_of (pv12 tripod) \<noteq> 0"
    by (simp add: nn_of_def pv12_def arr3_of_def tripod_def arr33_of_def)
  have b: "nn_of (n1_avg tripod (1 / 3)) \<noteq> 0"
    by (simp add: tripod_nn)
  show ?thesis
    using a b
      calc_normal_default_and_unit [where cont = 0 and vet = tripod and st = zero_normal]
      calc_normal_default_and_unit [where cont = 2 and vet = tripod and st = zero_normal]
      calc_normal_default_and_unit [where cont = 3 and vet = tripod and st = zero_normal]
    by simp
qed








subsection \<open>Secondary neighbour list builder\<close>

lemma step_unfold:
  "ILP_neighbor_step inp n1 i1 (nl, c) =
     (if ILP_keep inp n1 (g_neighbor_list inp (n1 + number_of_particles inp * i1))
      then (nl(c * number_of_particles inp + n1 :=
                 g_neighbor_list inp (n1 + number_of_particles inp * i1)), c + 1)
      else (nl, c))"
  by (simp add: ILP_neighbor_step_def ILP_keep_def Let_def)

lemma fold_step_count:
  "snd (fold (ILP_neighbor_step inp n1) is (nl, c)) =
     c + int (length (filter (ILP_keep inp n1)
               (map (\<lambda>i1. g_neighbor_list inp (n1 + number_of_particles inp * i1)) is)))"
  by (induction "is" arbitrary: nl c) (simp_all add: step_unfold)

lemma fold_step_frame:
  "(\<And>k. c \<le> k \<Longrightarrow> j \<noteq> k * number_of_particles inp + n1) \<Longrightarrow>
   fst (fold (ILP_neighbor_step inp n1) is (nl, c)) j = nl j"
proof (induction "is" arbitrary: nl c)
  case Nil
  then show ?case by simp
next
  case (Cons i1 "is")
  show ?case
  proof (cases "ILP_keep inp n1 (g_neighbor_list inp (n1 + number_of_particles inp * i1))")
    case True
    have "fst (fold (ILP_neighbor_step inp n1) is
            (nl(c * number_of_particles inp + n1 :=
                 g_neighbor_list inp (n1 + number_of_particles inp * i1)), c + 1)) j
          = (nl(c * number_of_particles inp + n1 :=
                 g_neighbor_list inp (n1 + number_of_particles inp * i1))) j"
      by (rule Cons.IH) (use Cons.prems in simp)
    also have "\<dots> = nl j"
      using Cons.prems [of c] by simp
    finally show ?thesis
      using True by (simp add: step_unfold)
  next
    case False
    then show ?thesis
      using Cons.IH [of c nl] Cons.prems by (simp add: step_unfold)
  qed
qed

lemma fold_step_entries:
  assumes "number_of_particles inp \<noteq> 0"
  shows "k < length (filter (ILP_keep inp n1)
               (map (\<lambda>i1. g_neighbor_list inp (n1 + number_of_particles inp * i1)) is)) \<Longrightarrow>
   fst (fold (ILP_neighbor_step inp n1) is (nl, c)) ((c + int k) * number_of_particles inp + n1)
     = filter (ILP_keep inp n1)
         (map (\<lambda>i1. g_neighbor_list inp (n1 + number_of_particles inp * i1)) is) ! k"
proof (induction "is" arbitrary: nl c k)
  case Nil
  then show ?case by simp
next
  case (Cons i1 "is")
  let ?N = "number_of_particles inp"
  let ?n2 = "g_neighbor_list inp (n1 + ?N * i1)"
  show ?case
  proof (cases "ILP_keep inp n1 ?n2")
    case True
    show ?thesis
    proof (cases k)
      case 0
      have "fst (fold (ILP_neighbor_step inp n1) is (nl(c * ?N + n1 := ?n2), c + 1))
              (c * ?N + n1) = (nl(c * ?N + n1 := ?n2)) (c * ?N + n1)"
        by (rule fold_step_frame) (use assms in simp)
      then show ?thesis
        using True 0 by (simp add: step_unfold)
    next
      case (Suc k')
      have "fst (fold (ILP_neighbor_step inp n1) is (nl(c * ?N + n1 := ?n2), c + 1))
              ((c + 1 + int k') * ?N + n1)
            = filter (ILP_keep inp n1) (map (\<lambda>i1. g_neighbor_list inp (n1 + ?N * i1)) is) ! k'"
        by (rule Cons.IH) (use Cons.prems True Suc in simp)
      then show ?thesis
        using True Suc by (simp add: step_unfold ac_simps)
    qed
  next
    case False
    then show ?thesis
      using Cons.IH [of k nl c] Cons.prems by (simp add: step_unfold)
  qed
qed


lemma thread_number:
  "ilp_neighbor_number (ILP_neighbor_thread inp n1 st) =
     (ilp_neighbor_number st)(n1 := int (length (kept_entries inp n1)))"
  using fold_step_count [of inp n1 "[0..g_neighbor_number inp n1 - 1]" "ilp_neighbor_list st" 0]
  by (simp add: ILP_neighbor_thread_def Let_def case_prod_unfold kept_entries_def)

lemma thread_list:
  "ilp_neighbor_list (ILP_neighbor_thread inp n1 st) =
     fst (fold (ILP_neighbor_step inp n1) [0..g_neighbor_number inp n1 - 1]
            (ilp_neighbor_list st, 0))"
  by (simp add: ILP_neighbor_thread_def Let_def case_prod_unfold)

lemma thread_entries:
  assumes "number_of_particles inp \<noteq> 0" and "k < length (kept_entries inp n1)"
  shows "ilp_neighbor_list (ILP_neighbor_thread inp n1 st)
           (int k * number_of_particles inp + n1) = kept_entries inp n1 ! k"
  using fold_step_entries [OF assms(1), of k n1 "[0..g_neighbor_number inp n1 - 1]"
      "ilp_neighbor_list st" 0] assms(2)
  by (simp add: thread_list kept_entries_def)

lemma column_distinct:
  fixes N :: int
  assumes "0 < N" "0 \<le> m" "m < N" "0 \<le> n1" "n1 < N" "m \<noteq> n1"
  shows "k * N + n1 \<noteq> k' * N + m"
proof
  assume "k * N + n1 = k' * N + m"
  then have "(k * N + n1) mod N = (k' * N + m) mod N"
    by simp
  then show False
    using assms by simp
qed

lemma thread_other_column:
  assumes "0 < number_of_particles inp" "0 \<le> m" "m < number_of_particles inp"
    "0 \<le> n1" "n1 < number_of_particles inp" "m \<noteq> n1"
  shows "ilp_neighbor_list (ILP_neighbor_thread inp m st) (k * number_of_particles inp + n1)
           = ilp_neighbor_list st (k * number_of_particles inp + n1)"
  unfolding thread_list
  by (rule fold_step_frame) (use assms in \<open>simp add: column_distinct\<close>)

lemma threads_other_column:
  assumes "0 < number_of_particles inp" "0 \<le> n1" "n1 < number_of_particles inp"
  shows "(\<And>m. m \<in> set ms \<Longrightarrow> 0 \<le> m \<and> m < number_of_particles inp \<and> m \<noteq> n1) \<Longrightarrow>
    ilp_neighbor_list (fold (ILP_neighbor_thread inp) ms st) (k * number_of_particles inp + n1)
      = ilp_neighbor_list st (k * number_of_particles inp + n1)
    \<and> ilp_neighbor_number (fold (ILP_neighbor_thread inp) ms st) n1 = ilp_neighbor_number st n1"
proof (induction ms arbitrary: st)
  case Nil
  then show ?case by simp
next
  case (Cons m ms)
  have m: "0 \<le> m" "m < number_of_particles inp" "m \<noteq> n1"
    using Cons.prems [of m] by simp_all
  have "ilp_neighbor_list (fold (ILP_neighbor_thread inp) ms (ILP_neighbor_thread inp m st))
            (k * number_of_particles inp + n1)
          = ilp_neighbor_list (ILP_neighbor_thread inp m st) (k * number_of_particles inp + n1)
        \<and> ilp_neighbor_number (fold (ILP_neighbor_thread inp) ms (ILP_neighbor_thread inp m st)) n1
          = ilp_neighbor_number (ILP_neighbor_thread inp m st) n1"
    by (rule Cons.IH) (use Cons.prems in simp)
  then show ?case
    using m thread_other_column [OF assms(1) m(1,2) assms(2,3) m(3)]
    by (simp add: thread_number)
qed

lemma ILP_neighbor_column:
  assumes "0 < number_of_particles inp" "0 \<le> N1 inp" "N2 inp \<le> number_of_particles inp"
    "N1 inp \<le> n1" "n1 < N2 inp"
  shows "ilp_neighbor_number (ILP_neighbor inp st) n1 = int (length (kept_entries inp n1))"
    and "k < length (kept_entries inp n1) \<Longrightarrow>
         ilp_neighbor_list (ILP_neighbor inp st) (int k * number_of_particles inp + n1)
           = kept_entries inp n1 ! k"
proof -
  let ?N = "number_of_particles inp"
  let ?pre = "fold (ILP_neighbor_thread inp) [N1 inp..n1 - 1] st"
  let ?mid = "ILP_neighbor_thread inp n1 ?pre"
  have split: "[N1 inp..N2 inp - 1] = [N1 inp..n1 - 1] @ n1 # [n1 + 1..N2 inp - 1]"
    using assms by (intro upto_split3) simp_all
  have run: "ILP_neighbor inp st = fold (ILP_neighbor_thread inp) [n1 + 1..N2 inp - 1] ?mid"
    by (simp add: ILP_neighbor_def split)
  have n1: "0 \<le> n1" "n1 < ?N"
    using assms by simp_all
  have rest: "ilp_neighbor_list (fold (ILP_neighbor_thread inp) [n1 + 1..N2 inp - 1] ?mid)
                 (k * ?N + n1) = ilp_neighbor_list ?mid (k * ?N + n1)
      \<and> ilp_neighbor_number (fold (ILP_neighbor_thread inp) [n1 + 1..N2 inp - 1] ?mid) n1
          = ilp_neighbor_number ?mid n1" for k
    by (rule threads_other_column [OF assms(1) n1]) (use assms in auto)
  show "ilp_neighbor_number (ILP_neighbor inp st) n1 = int (length (kept_entries inp n1))"
    using rest by (simp add: run thread_number)
  show "ilp_neighbor_list (ILP_neighbor inp st) (int k * ?N + n1) = kept_entries inp n1 ! k"
    if "k < length (kept_entries inp n1)"
    using rest [of "int k"] thread_entries [of inp k n1 ?pre] that assms(1)
    by (simp add: run)
qed

text \<open>
  Claim C7 says that the builder keeps an entry \<open>n2\<close> iff the groups agree, \<open>n2 \<noteq> n1\<close> and
  the squared distance is below the squared cutoff, so that distinct atoms at one position are
  kept. The code tests \<open>d12sq != 0\<close> where the claim has \<open>n2 \<noteq> n1\<close>: of two distinct
  atoms of one group at the same position, neither is kept by the other.
\<close>

theorem ILP_neighbor_drops_coincident_atom:
  "g_neighbor_list coincident_pair (0 + number_of_particles coincident_pair * 0) = 1
   \<and> group_label coincident_pair 0 = group_label coincident_pair 1
   \<and> (1 :: int) \<noteq> 0
   \<and> norm_sq (mic_disp coincident_pair 0 1)
        < para_rcutsq_ilp (ilp_para coincident_pair) (g_type coincident_pair 0)
            (g_type coincident_pair 1)
   \<and> ilp_neighbor_number (ILP_neighbor coincident_pair blank_nl) 0 = 0"
  by (simp add: ILP_neighbor_def ILP_neighbor_thread_def ILP_neighbor_step_def Let_def
      upto_rec1 MAX_ILP_NEIGHBOR_def norm_sq_def mic_disp_def
      coincident_pair_def const_para_def blank_nl_def)

text \<open>
  Claim C7, amended: in a build in which no atom of the owned range has more than
  \<open>MAX_ILP_NEIGHBOR\<close> general-neighbour entries passing the test, the builder keeps the
  general-neighbour entry \<open>n2\<close> of atom \<open>n1\<close> if and only if the groups of \<open>n1\<close> and \<open>n2\<close>
  agree, the squared minimum-image distance between them is not zero, and that squared
  distance is strictly below \<open>rcutsq_ilp\<close> of the two types: the secondary list of \<open>n1\<close>
  holds exactly these entries, within its extent. In particular \<open>n1\<close> itself is not kept
  when the minimum image of the zero vector is zero, and distinct atoms at one position are
  not kept.
\<close>

theorem ILP_neighbor_keep_rule:
  fixes inp :: ilp_input and n1 :: int and st :: ilp_nl
  defines "N \<equiv> number_of_particles inp"
  defines "kept \<equiv> (\<lambda>m.
     filter (\<lambda>n2. group_label inp m = group_label inp n2
                  \<and> norm_sq (mic_disp inp m n2)
                       < para_rcutsq_ilp (ilp_para inp) (g_type inp m) (g_type inp n2)
                  \<and> norm_sq (mic_disp inp m n2) \<noteq> 0)
       (map (\<lambda>i1. g_neighbor_list inp (m + N * i1)) [0..g_neighbor_number inp m - 1]))"
  assumes "0 < N" and "0 \<le> N1 inp" and "N2 inp \<le> N" and "N1 inp \<le> n1" and "n1 < N2 inp"
    and "\<forall>m. N1 inp \<le> m \<and> m < N2 inp \<longrightarrow> int (length (kept m)) \<le> MAX_ILP_NEIGHBOR"
  shows "ilp_neighbor_number (ILP_neighbor inp st) n1 = int (length (kept n1))
       \<and> ilp_neighbor_number (ILP_neighbor inp st) n1 \<le> MAX_ILP_NEIGHBOR
       \<and> (\<forall>k<length (kept n1).
             ilp_neighbor_list (ILP_neighbor inp st) (int k * N + n1) = kept n1 ! k
             \<and> int k * N + n1 < ilp_NL_size N)
       \<and> (apply_mic inp (0, 0, 0) = (0, 0, 0) \<longrightarrow> n1 \<notin> set (kept n1))"
proof -
  have k: "kept n1 = kept_entries inp n1"
    by (simp add: kept_def N_def kept_entries_def ILP_keep_def [abs_def])
  have self: "n1 \<notin> set (kept n1)" if "apply_mic inp (0, 0, 0) = (0, 0, 0)"
  proof -
    have "norm_sq (mic_disp inp n1 n1) = 0"
      using that by (simp add: mic_disp_def norm_sq_def split: prod.splits)
    then show ?thesis
      by (simp add: kept_def)
  qed
  have cap: "int (length (kept n1)) \<le> MAX_ILP_NEIGHBOR"
    using assms(8) assms(6,7) by blast
  have inside: "int j * N + n1 < ilp_NL_size N" if "j < length (kept n1)" for j
  proof -
    have "int j + 1 \<le> MAX_ILP_NEIGHBOR"
      using that cap by linarith
    then have "(int j + 1) * N \<le> MAX_ILP_NEIGHBOR * N"
      using assms(3) by (intro mult_right_mono) simp_all
    moreover have "n1 < N"
      using assms(5,7) by linarith
    ultimately show ?thesis
      by (simp add: ilp_NL_size_def algebra_simps)
  qed
  note col = ILP_neighbor_column [OF assms(3-7) [unfolded N_def]]
  show ?thesis
    using col(1) [of st] col(2) [of _ st] self cap inside
    unfolding k N_def by simp
qed


lemma tat_fields:
  "number_of_particles triangle_and_top = 4" "N1 triangle_and_top = 0"
  "N2 triangle_and_top = 4"
  "apply_mic triangle_and_top v = v" "g_neighbor_number triangle_and_top n = 3"
  "g_neighbor_list triangle_and_top i = [1, 0, 0, 0, 2, 2, 1, 1, 3, 3, 3, 2] ! nat i"
  "g_type triangle_and_top n = 0"
  "group_label triangle_and_top n = (if n = 3 then 1 else 0)"
  "g_pos triangle_and_top n = [(0, 0, 0), (1, 0, 0), (0, 1, 0), (0, 0, 1)] ! nat n"
  "ilp_para triangle_and_top = const_para"
  by (simp_all add: triangle_and_top_def)


lemma tat_cap:
  "\<forall>m. N1 triangle_and_top \<le> m \<and> m < N2 triangle_and_top \<longrightarrow>
      int (length (filter (\<lambda>n2. group_label triangle_and_top m = group_label triangle_and_top n2
                  \<and> norm_sq (mic_disp triangle_and_top m n2)
                       < para_rcutsq_ilp (ilp_para triangle_and_top) (g_type triangle_and_top m)
                           (g_type triangle_and_top n2)
                  \<and> norm_sq (mic_disp triangle_and_top m n2) \<noteq> 0)
       (map (\<lambda>i1. g_neighbor_list triangle_and_top
                     (m + number_of_particles triangle_and_top * i1))
          [0..g_neighbor_number triangle_and_top m - 1]))) \<le> MAX_ILP_NEIGHBOR"
proof (intro allI impI)
  fix m
  let ?P = "\<lambda>n2. group_label triangle_and_top m = group_label triangle_and_top n2
                  \<and> norm_sq (mic_disp triangle_and_top m n2)
                       < para_rcutsq_ilp (ilp_para triangle_and_top) (g_type triangle_and_top m)
                           (g_type triangle_and_top n2)
                  \<and> norm_sq (mic_disp triangle_and_top m n2) \<noteq> 0"
  let ?xs = "map (\<lambda>i1. g_neighbor_list triangle_and_top
                     (m + number_of_particles triangle_and_top * i1))
          [0..g_neighbor_number triangle_and_top m - 1]"
  have len: "length ?xs = 3"
    by (simp add: tat_fields(5))
  have "length (filter ?P ?xs) \<le> length ?xs"
    by (rule length_filter_le)
  then have "length (filter ?P ?xs) \<le> 3"
    unfolding len .
  then show "int (length (filter ?P ?xs)) \<le> MAX_ILP_NEIGHBOR"
    unfolding MAX_ILP_NEIGHBOR_def by linarith
qed

lemma tat_kept:
  "filter (\<lambda>n2. group_label triangle_and_top 1 = group_label triangle_and_top n2
                  \<and> norm_sq (mic_disp triangle_and_top 1 n2)
                       < para_rcutsq_ilp (ilp_para triangle_and_top) (g_type triangle_and_top 1)
                           (g_type triangle_and_top n2)
                  \<and> norm_sq (mic_disp triangle_and_top 1 n2) \<noteq> 0)
       (map (\<lambda>i1. g_neighbor_list triangle_and_top
                     (1 + number_of_particles triangle_and_top * i1))
          [0..g_neighbor_number triangle_and_top 1 - 1]) = [0, 2]"
  by (simp add: tat_fields const_para_def mic_disp_def norm_sq_def upto_rec1)


theorem ILP_neighbor_keep_rule_witness:
  "ilp_neighbor_number (ILP_neighbor triangle_and_top blank_nl) 1 = 2
   \<and> ilp_neighbor_list (ILP_neighbor triangle_and_top blank_nl) 1 = 0
   \<and> ilp_neighbor_list (ILP_neighbor triangle_and_top blank_nl) 5 = 2"
proof -
  have h: "0 < number_of_particles triangle_and_top" "0 \<le> N1 triangle_and_top"
    "N2 triangle_and_top \<le> number_of_particles triangle_and_top"
    "N1 triangle_and_top \<le> 1" "1 < N2 triangle_and_top"
    by (simp_all add: tat_fields)
  note r = ILP_neighbor_keep_rule [OF h tat_cap, of blank_nl, unfolded tat_kept]
  from r have n: "ilp_neighbor_number (ILP_neighbor triangle_and_top blank_nl) 1 = 2"
    by simp
  from r have e: "\<forall>k<length [0, 2 :: int].
      ilp_neighbor_list (ILP_neighbor triangle_and_top blank_nl)
        (int k * number_of_particles triangle_and_top + 1) = [0, 2] ! k
      \<and> int k * number_of_particles triangle_and_top + 1
            < ilp_NL_size (number_of_particles triangle_and_top)"
    by blast
  have e0: "ilp_neighbor_list (ILP_neighbor triangle_and_top blank_nl) 1 = 0"
    using e [rule_format, of 0] by (simp add: tat_fields(1))
  have e1: "ilp_neighbor_list (ILP_neighbor triangle_and_top blank_nl) 5 = 2"
    using e [rule_format, of 1] by (simp add: tat_fields(1))
  show ?thesis
    using n e0 e1 by simp
qed

text \<open>
  Claim C2 says that when the filtered count of an atom exceeds the capacity, the builder
  reports it, never writes outside the secondary list, and later stages read at most the
  capped count. In the five-atom layer, atom 0 has four secondary neighbours. The builder
  prints the diagnostic (count 4, atom 0, entries 1, 2, 3, 4), but it has stored the count 4
  and written the fourth entry at index \<open>3 * 5 + 0 = 15\<close>, which is the extent of the list
  (valid indices end at 14), whatever the list held before; the bond-vector loop of the force
  kernel then runs four times (\<open>cont = 4\<close>).
\<close>

theorem ILP_neighbor_overflows_capacity:
  "\<forall>nl. ilp_neighbor_number (compute_neighbor crowded_layer nl) 0 = 4
      \<and> MAX_ILP_NEIGHBOR < 4
      \<and> ilp_printed (compute_neighbor crowded_layer nl) = ilp_printed nl @ [(4, 0, [1, 2, 3, 4])]
      \<and> ilp_NL_size (number_of_particles crowded_layer) = 15
      \<and> ilp_neighbor_list (compute_neighbor crowded_layer nl) 15 = 4
      \<and> snd (bond_vectors crowded_layer (compute_neighbor crowded_layer nl) 0) = 4"
  by (simp add: compute_neighbor_def ILP_neighbor_def ILP_neighbor_thread_def ILP_neighbor_step_def Let_def
      upto_rec1 MAX_ILP_NEIGHBOR_def norm_sq_def mic_disp_def
      crowded_layer_def const_para_def fill_zero_def ilp_NL_size_def bond_vectors_def
      bond_step_def)

subsection \<open>The two passes\<close>

lemma fold_frame:
  "(\<And>x s. P (f x s) = P s) \<Longrightarrow> P (fold f xs s) = P s"
  by (induction xs arbitrary: s) simp_all

lemma init_frame:
  "g_f12 (init_ILP_temp_data inp st) = g_f12 st"
  "g_force (init_ILP_temp_data inp st) = g_force st"
  "g_potential (init_ILP_temp_data inp st) = g_potential st"
  unfolding init_ILP_temp_data_def
  by (rule fold_frame, simp add: init_ILP_temp_thread_def Let_def)+

lemma reduce_frame:
  "g_f12 (reduce_force_many_body inp nl st) = g_f12 st"
  "g_f12_ilp_neigh (reduce_force_many_body inp nl st) = g_f12_ilp_neigh st"
  "g_potential (reduce_force_many_body inp nl st) = g_potential st"
  unfolding reduce_force_many_body_def
  by (rule fold_frame, simp add: reduce_thread_def Let_def)+

lemma normal_default:
  "ilp_neighbor_number nl n1 = 0 \<Longrightarrow> find_force_normal inp nl n1 = default_normal"
  by (simp add: find_force_normal_def bond_vectors_def calc_normal_def default_normal_def)

lemma olp_fields:
  "number_of_particles one_layer_pair = 2" "N1 one_layer_pair = 0" "N2 one_layer_pair = 2"
  "apply_mic one_layer_pair v = v" "g_neighbor_number one_layer_pair n = 1"
  "g_neighbor_list one_layer_pair i = [1, 0] ! nat i" "g_type one_layer_pair n = 0"
  "group_label one_layer_pair n = 0" "g_pos one_layer_pair n = (real_of_int n, 0, 0)"
  "ilp_para one_layer_pair = const_para"
  by (simp_all add: one_layer_pair_def)

lemma olp_nn: "ilp_neighbor_number (compute_neighbor one_layer_pair nl) =
   (\<lambda>i. if 0 \<le> i \<and> i < 2 then 1 else ilp_neighbor_number nl i)"
  by (simp add: compute_neighbor_def ILP_neighbor_def ILP_neighbor_thread_def ILP_neighbor_step_def
      Let_def upto_rec1 MAX_ILP_NEIGHBOR_def norm_sq_def mic_disp_def fill_zero_def
      ilp_NL_size_def
      olp_fields const_para_def fun_eq_iff)

lemma olp_nl: "ilp_neighbor_list (compute_neighbor one_layer_pair nl) 0 = 1"
  "ilp_neighbor_list (compute_neighbor one_layer_pair nl) 1 = 0"
  by (simp_all add: compute_neighbor_def ILP_neighbor_def ILP_neighbor_thread_def ILP_neighbor_step_def
      Let_def upto_rec1 MAX_ILP_NEIGHBOR_def norm_sq_def mic_disp_def fill_zero_def
      ilp_NL_size_def
      olp_fields const_para_def fun_eq_iff)

lemma olp_body: "pair_body one_layer_pair nrm n1 i1 = None"
  by (simp add: pair_body_def olp_fields Let_def split: prod.splits)

lemma olp_acc: "find_force_acc one_layer_pair nl n1 st =
    \<lparr>s_f = (0, 0, 0), s_pe = 0, fk_temp = (\<lambda>k. 0), acc_f12 = g_f12 st\<rparr>"
  by (simp add: find_force_acc_def pair_step_def olp_body olp_fields upto_rec1)

lemma olp_kernel:
  "g_f12 (gpu_find_force one_layer_pair nl st) = g_f12 st"
  "g_f12_ilp_neigh (gpu_find_force one_layer_pair nl st) 1 = (0, 0, 0)"
  "g_force (gpu_find_force one_layer_pair nl st) 0 = g_force st 0"
  by (simp_all add: gpu_find_force_def find_force_thread_def olp_acc olp_fields upto_rec1
      Let_def vadd_def split: prod.splits)

text \<open>
  Claim C6 says that every pairwise-buffer and many-body-buffer slot that the reduction pass
  reads was written earlier in the same evaluation, by the force kernel or by the
  initialisation. For two atoms of one group that are general neighbours of each other, the
  force kernel skips the pair and the initialisation does not touch the pairwise buffer (its
  lines for it are commented out): the reduction thread of atom 0 reads index 1, which still
  holds what it held before the evaluation, and subtracts that value from the force on
  atom 0.
\<close>

theorem stale_pairwise_slot_is_read:
  "\<forall>nl st.
     reduce_pair_index one_layer_pair 0 0 = 1
     \<and> g_f12 (compute_passes one_layer_pair (compute_neighbor one_layer_pair nl) st) 1 = g_f12 st 1
     \<and> g_force (compute one_layer_pair nl st) 0 = vsub (g_force st 0) (g_f12 st 1)"
proof (intro allI conjI)
  fix nl st
  show i: "reduce_pair_index one_layer_pair 0 0 = 1"
    by (simp add: reduce_pair_index_def olp_fields Let_def)
  show "g_f12 (compute_passes one_layer_pair (compute_neighbor one_layer_pair nl) st) 1 = g_f12 st 1"
    by (simp add: compute_passes_def olp_kernel init_frame)
  have j: "reduce_ilp_index one_layer_pair (compute_neighbor one_layer_pair nl) 0 0 = 1"
    by (simp add: reduce_ilp_index_def olp_fields olp_nl Let_def)
  show "g_force (compute one_layer_pair nl st) 0 = vsub (g_force st 0) (g_f12 st 1)"
    by (simp add: compute_def Let_def reduce_force_many_body_def reduce_thread_def olp_fields
        upto_rec1 olp_nn i j compute_passes_def olp_kernel init_frame vadd_def vsub_def
        split: prod.splits)
qed


lemma tl_fields:
  "number_of_particles three_layers = 3" "N1 three_layers = 0" "N2 three_layers = 3"
  "apply_mic three_layers v = v" "g_neighbor_number three_layers n = 2"
  "g_neighbor_list three_layers i = [1, 0, 0, 2, 2, 1] ! nat i" "g_type three_layers n = 0"
  "group_label three_layers n = n" "g_pos three_layers n = (0, 0, real_of_int n)"
  "ilp_para three_layers = const_para"
  by (simp_all add: three_layers_def)

lemma tl_nn: "ilp_neighbor_number (compute_neighbor three_layers nl) =
   (\<lambda>i. if 0 \<le> i \<and> i < 3 then 0 else ilp_neighbor_number nl i)"
  by (simp add: compute_neighbor_def ILP_neighbor_def ILP_neighbor_thread_def ILP_neighbor_step_def
      Let_def upto_rec1 MAX_ILP_NEIGHBOR_def norm_sq_def mic_disp_def fill_zero_def
      ilp_NL_size_def
      tl_fields const_para_def fun_eq_iff)


lemma tl_normal:
  "find_force_normal three_layers (compute_neighbor three_layers nl) n1 =
     (if 0 \<le> n1 \<and> n1 < 3 then default_normal
      else find_force_normal three_layers (compute_neighbor three_layers nl) n1)"
  by (simp add: normal_default tl_nn default_normal_def)

lemma tl_body:
  "pair_body three_layers default_normal 0 0 =
     Some \<lparr>po_force = (0, 0, 20007 / 8192), po_pe = 26649 / 16384,
           po_fkc = (0, 0, - (945 / 2048)), po_fk = (\<lambda>kk. (0, 0, 0))\<rparr>"
  "pair_body three_layers default_normal 0 1 =
     Some \<lparr>po_force = (0, 0, - (8829 / 8192)), po_pe = 511 / 512,
           po_fkc = (0, 0, - (35 / 32)), po_fk = (\<lambda>kk. (0, 0, 0))\<rparr>"
  "pair_body three_layers default_normal 1 0 =
     Some \<lparr>po_force = (0, 0, - (20007 / 8192)), po_pe = 26649 / 16384,
           po_fkc = (0, 0, 945 / 2048), po_fk = (\<lambda>kk. (0, 0, 0))\<rparr>"
  "pair_body three_layers default_normal 1 1 =
     Some \<lparr>po_force = (0, 0, 20007 / 8192), po_pe = 26649 / 16384,
           po_fkc = (0, 0, - (945 / 2048)), po_fk = (\<lambda>kk. (0, 0, 0))\<rparr>"
  "pair_body three_layers default_normal 2 0 =
     Some \<lparr>po_force = (0, 0, 8829 / 8192), po_pe = 511 / 512,
           po_fkc = (0, 0, 35 / 32), po_fk = (\<lambda>kk. (0, 0, 0))\<rparr>"
  "pair_body three_layers default_normal 2 1 =
     Some \<lparr>po_force = (0, 0, - (20007 / 8192)), po_pe = 26649 / 16384,
           po_fkc = (0, 0, 945 / 2048), po_fk = (\<lambda>kk. (0, 0, 0))\<rparr>"
  by (simp_all add: pair_body_def tl_fields const_para_def mic_disp_def Let_def calc_Tap_def
      calc_dTap_def Tap_coeff_def calc_vdW_def arr3_of_def default_normal_def)

lemma tl_acc_f12:
  "acc_f12 (find_force_acc three_layers (compute_neighbor three_layers nl) 0 st) =
     (g_f12 st)(0 := (0, 0, - (945 / 2048)), 3 := (0, 0, - (35 / 32)))"
  "acc_f12 (find_force_acc three_layers (compute_neighbor three_layers nl) 1 st) =
     (g_f12 st)(1 := (0, 0, 945 / 2048), 4 := (0, 0, - (945 / 2048)))"
  "acc_f12 (find_force_acc three_layers (compute_neighbor three_layers nl) 2 st) =
     (g_f12 st)(2 := (0, 0, 35 / 32), 5 := (0, 0, 945 / 2048))"
  by (simp_all add: find_force_acc_def tl_normal pair_step_def tl_body tl_fields upto_rec1)

lemma tl_f12:
  "g_f12 (compute_passes three_layers (compute_neighbor three_layers nl) st) =
     (g_f12 st)(0 := (0, 0, - (945 / 2048)), 3 := (0, 0, - (35 / 32)),
                1 := (0, 0, 945 / 2048), 4 := (0, 0, - (945 / 2048)),
                2 := (0, 0, 35 / 32), 5 := (0, 0, 945 / 2048))"
  by (simp add: compute_passes_def gpu_find_force_def tl_fields upto_rec1 find_force_thread_def
      Let_def tl_acc_f12 init_frame)

lemma tl_index:
  "reduce_pair_index three_layers 0 0 = 4"
  "reduce_pair_index three_layers 0 1 = 5"
  "reduce_pair_index three_layers 1 0 = 3"
  "reduce_pair_index three_layers 1 1 = 5"
  "reduce_pair_index three_layers 2 0 = 3"
  "reduce_pair_index three_layers 2 1 = 4"
  by (simp_all add: reduce_pair_index_def tl_fields Let_def)

lemma tl_acc_sf:
  "s_f (find_force_acc three_layers (compute_neighbor three_layers nl) 0 st) = (0, 0, 5589 / 4096)"
  "s_f (find_force_acc three_layers (compute_neighbor three_layers nl) 1 st) = (0, 0, 0)"
  "s_f (find_force_acc three_layers (compute_neighbor three_layers nl) 2 st) = (0, 0, - (5589 / 4096))"
  by (simp_all add: find_force_acc_def tl_normal pair_step_def tl_body tl_fields upto_rec1 vadd_def)

lemma tl_force_kernel:
  "g_force (compute_passes three_layers (compute_neighbor three_layers nl) st) =
     (g_force st)(0 := vadd (g_force st 0) (0, 0, 5589 / 4096),
                  1 := vadd (g_force st 1) (0, 0, 0),
                  2 := vadd (g_force st 2) (0, 0, - (5589 / 4096)))"
  by (simp add: compute_passes_def gpu_find_force_def tl_fields upto_rec1 find_force_thread_def
      Let_def tl_acc_sf init_frame)

text \<open>
  Claim C1 says that once both passes have run, the pairwise force that \<open>i\<close> receives on
  account of \<open>j\<close> is the negative of the one \<open>j\<close> receives on account of \<open>i\<close>, for every
  pair within the cutoff. In the three-layer stack atoms 0 and 1 are first neighbours of
  each other at distance 1 (cutoff 4). The two passes add \<open>23787 / 8192\<close> to the
  \<open>z\<close>-force on atom 0 on account of atom 1, and \<open>- 11047 / 8192\<close> to the \<open>z\<close>-force on atom 1
  on account of atom 0: the reduction threads read the slots at offset 1 of the partner's
  list, which hold the forces stored for atom 2. The forces added to the three atoms do not
  sum to zero.
\<close>

theorem newton_third_law_broken:
  "\<forall>nl st.
     g_neighbor_list three_layers (0 + number_of_particles three_layers * 0) = 1
   \<and> g_neighbor_list three_layers (1 + number_of_particles three_layers * 0) = 0
   \<and> sqrt (norm_sq (mic_disp three_layers 0 1))
        < para_rcut_global (ilp_para three_layers) (g_type three_layers 0) (g_type three_layers 1)
   \<and> pair_force_total three_layers (compute_neighbor three_layers nl) st 0 0
        = (0, 0, 23787 / 8192)
   \<and> pair_force_total three_layers (compute_neighbor three_layers nl) st 1 0
        = (0, 0, - (11047 / 8192))
   \<and> g_force (compute three_layers nl st) 0 = vadd (g_force st 0) (0, 0, 5589 / 4096)
   \<and> g_force (compute three_layers nl st) 1 = vadd (g_force st 1) (0, 0, 1295 / 2048)
   \<and> g_force (compute three_layers nl st) 2 = vadd (g_force st 2) (0, 0, 781 / 4096)"
proof (intro allI)
  fix nl st
  have pairs:
    "g_neighbor_list three_layers (0 + number_of_particles three_layers * 0) = 1
     \<and> g_neighbor_list three_layers (1 + number_of_particles three_layers * 0) = 0
     \<and> sqrt (norm_sq (mic_disp three_layers 0 1))
          < para_rcut_global (ilp_para three_layers) (g_type three_layers 0)
              (g_type three_layers 1)
     \<and> pair_force_total three_layers (compute_neighbor three_layers nl) st 0 0
          = (0, 0, 23787 / 8192)
     \<and> pair_force_total three_layers (compute_neighbor three_layers nl) st 1 0
          = (0, 0, - (11047 / 8192))"
    by (simp add: pair_force_total_def tl_normal tl_body tl_f12 tl_index tl_fields vsub_def
        norm_sq_def mic_disp_def const_para_def)
  have final:
    "g_force (compute three_layers nl st) 0 = vadd (g_force st 0) (0, 0, 5589 / 4096)
     \<and> g_force (compute three_layers nl st) 1 = vadd (g_force st 1) (0, 0, 1295 / 2048)
     \<and> g_force (compute three_layers nl st) 2 = vadd (g_force st 2) (0, 0, 781 / 4096)"
    by (simp add: compute_def Let_def reduce_force_many_body_def tl_fields upto_rec1
        reduce_thread_def tl_nn tl_index tl_f12 tl_force_kernel vadd_def vsub_def
        split: prod.splits)
  show "g_neighbor_list three_layers (0 + number_of_particles three_layers * 0) = 1
   \<and> g_neighbor_list three_layers (1 + number_of_particles three_layers * 0) = 0
   \<and> sqrt (norm_sq (mic_disp three_layers 0 1))
        < para_rcut_global (ilp_para three_layers) (g_type three_layers 0) (g_type three_layers 1)
   \<and> pair_force_total three_layers (compute_neighbor three_layers nl) st 0 0
        = (0, 0, 23787 / 8192)
   \<and> pair_force_total three_layers (compute_neighbor three_layers nl) st 1 0
        = (0, 0, - (11047 / 8192))
   \<and> g_force (compute three_layers nl st) 0 = vadd (g_force st 0) (0, 0, 5589 / 4096)
   \<and> g_force (compute three_layers nl st) 1 = vadd (g_force st 1) (0, 0, 1295 / 2048)
   \<and> g_force (compute three_layers nl st) 2 = vadd (g_force st 2) (0, 0, 781 / 4096)"
    using pairs final by simp
qed

subsection \<open>Energy of two atoms in different groups\<close>

lemma pair_body_default_pe:
  assumes "g_neighbor_list inp (n1 + number_of_particles inp * i1) = n2"
    and "mic_disp inp n1 n2 = (x12, y12, z12)"
    and "sqrt (x12 * x12 + y12 * y12 + z12 * z12) = r"
    and "para_rcut_global (ilp_para inp) (g_type inp n1) (g_type inp n2) = Rcut"
    and "r < Rcut"
    and "group_label inp n1 \<noteq> group_label inp n2"
  shows "map_option po_pe (pair_body inp default_normal n1 i1) =
    Some (calc_Tap r (1 / Rcut) *
        (exp (- (para_lambda (ilp_para inp) (g_type inp n1) (g_type inp n2) *
                 (r - para_z0 (ilp_para inp) (g_type inp n1) (g_type inp n2)))) *
         (para_epsilon (ilp_para inp) (g_type inp n1) (g_type inp n2) / 2 +
          exp (- ((x12 * x12 + y12 * y12) *
                  para_delta2inv (ilp_para inp) (g_type inp n1) (g_type inp n2))) *
          para_C (ilp_para inp) (g_type inp n1) (g_type inp n2))) -
        calc_Tap r (1 / Rcut) *
        para_C_6 (ilp_para inp) (g_type inp n1) (g_type inp n2) /
        ((x12 * x12 + y12 * y12 + z12 * z12) *
         (x12 * x12 + y12 * y12 + z12 * z12) *
         (x12 * x12 + y12 * y12 + z12 * z12) *
         (1 + exp (para_d (ilp_para inp) (g_type inp n1) (g_type inp n2) -
               para_d_Seff (ilp_para inp) (g_type inp n1) (g_type inp n2) * r)) * 2))"
  using assms
  by (simp add: pair_body_def Let_def calc_vdW_def default_normal_def arr3_of_def)

lemma single_neighbor_pe:
  assumes "g_neighbor_number inp n1 = 1"
  shows "s_pe (find_force_acc inp nl n1 st) =
           (case map_option po_pe (pair_body inp (find_force_normal inp nl n1) n1 0) of
              None \<Rightarrow> 0 | Some e \<Rightarrow> e)"
  using assms
  by (simp add: find_force_acc_def pair_step_def split: option.splits)

lemma thread_potential:
  "g_potential (find_force_thread inp nl n1 st) =
     (g_potential st)(n1 := g_potential st n1 + s_pe (find_force_acc inp nl n1 st))"
  by (simp add: find_force_thread_def Let_def)

lemma no_secondary_neighbors:
  assumes "number_of_particles inp = 2" "N1 inp = 0" "N2 inp = 2"
    and "g_neighbor_number inp 0 = 1" "g_neighbor_number inp 1 = 1"
    and "g_neighbor_list inp 0 = 1" "g_neighbor_list inp 1 = 0"
    and "group_label inp 0 \<noteq> group_label inp 1"
  shows "ilp_neighbor_number (compute_neighbor inp nl) 0 = 0"
    and "ilp_neighbor_number (compute_neighbor inp nl) 1 = 0"
  using assms
  by (simp_all add: compute_neighbor_def ILP_neighbor_def ILP_neighbor_thread_def ILP_neighbor_step_def
      Let_def upto_rec1 MAX_ILP_NEIGHBOR_def norm_sq_def mic_disp_def fill_zero_def
      ilp_NL_size_def)


lemma closed_form_eq:
  fixes x12 y12 z12 :: real
  assumes r: "r = sqrt (x12 * x12 + y12 * y12 + z12 * z12)"
  shows "T * (exp (- (lam * (r - z0))) * (eps / 2 + exp (- ((x12 * x12 + y12 * y12) * delta2inv)) * C))
         - T * C6 / ((x12 * x12 + y12 * y12 + z12 * z12) * (x12 * x12 + y12 * y12 + z12 * z12)
                      * (x12 * x12 + y12 * y12 + z12 * z12) * (1 + exp (d - d_Seff * r)) * 2)
       = T * (- C6 / r ^ 6) / (1 + exp (- d_Seff * r + d)) / 2
         + T * (exp (- lam * (r - z0)) * (eps / 2 + C * exp (- ((r ^ 2 - z12 ^ 2) * delta2inv))))"
proof -
  let ?s = "x12 * x12 + y12 * y12 + z12 * z12"
  have s: "0 \<le> ?s"
    by simp
  have r2: "r ^ 2 = ?s"
    unfolding r using s by simp
  have "r ^ 6 = (r ^ 2) ^ 3"
    by (simp add: power_mult [symmetric])
  then have r6: "r ^ 6 = ?s * ?s * ?s"
    by (simp add: r2 power3_eq_cube)
  have "r * r = ?s"
    using r2 by (simp add: power2_eq_square)
  then have rho: "r ^ 2 - z12 ^ 2 = x12 * x12 + y12 * y12"
    by (simp add: power2_eq_square)
  have e: "exp (- d_Seff * r + d) = exp (d - d_Seff * r)"
    by (simp add: algebra_simps)
  show ?thesis
    unfolding r6 rho e by (simp add: mult.commute)
qed

lemma two_atom_energy_aux:
  assumes "number_of_particles inp = 2" "N1 inp = 0" "N2 inp = 2"
    and "g_neighbor_number inp 0 = 1" "g_neighbor_number inp 1 = 1"
    and "g_neighbor_list inp 0 = 1" "g_neighbor_list inp 1 = 0"
    and "group_label inp 0 \<noteq> group_label inp 1"
    and "mic_disp inp 0 1 = (x12, y12, z12)" "mic_disp inp 1 0 = (- x12, - y12, - z12)"
    and "r = sqrt (x12 * x12 + y12 * y12 + z12 * z12)"
    and "para_entry (ilp_para inp) (g_type inp 0) (g_type inp 1)
           = [C, C6, d, d_Seff, eps, z0, lam, delta2inv, Rcut]"
    and "para_entry (ilp_para inp) (g_type inp 1) (g_type inp 0)
           = [C, C6, d, d_Seff, eps, z0, lam, delta2inv, Rcut]"
    and "r < Rcut"
  shows "g_potential (compute inp nl st) 0 + g_potential (compute inp nl st) 1
           - (g_potential st 0 + g_potential st 1)
         = calc_Tap r (1 / Rcut) * (- C6 / r ^ 6) / (1 + exp (- d_Seff * r + d))
           + 2 * (calc_Tap r (1 / Rcut)
                  * (exp (- lam * (r - z0))
                     * (eps / 2 + C * exp (- ((r ^ 2 - z12 ^ 2) * delta2inv)))))"
proof -
  let ?nl = "compute_neighbor inp nl"
  let ?E = "calc_Tap r (1 / Rcut) * (- C6 / r ^ 6) / (1 + exp (- d_Seff * r + d)) / 2
            + calc_Tap r (1 / Rcut)
              * (exp (- lam * (r - z0))
                 * (eps / 2 + C * exp (- ((r ^ 2 - z12 ^ 2) * delta2inv))))"
  note nn = no_secondary_neighbors [OF assms(1-8)]
  have nrm: "find_force_normal inp ?nl 0 = default_normal"
    "find_force_normal inp ?nl 1 = default_normal"
    by (simp_all add: normal_default nn default_normal_def)
  have r': "sqrt (x12 * x12 + y12 * y12 + z12 * z12) = r"
    "sqrt (- x12 * - x12 + - y12 * - y12 + - z12 * - z12) = r"
    using assms(11) by simp_all
  have p01: "para_C (ilp_para inp) (g_type inp 0) (g_type inp 1) = C"
    "para_C_6 (ilp_para inp) (g_type inp 0) (g_type inp 1) = C6"
    "para_d (ilp_para inp) (g_type inp 0) (g_type inp 1) = d"
    "para_d_Seff (ilp_para inp) (g_type inp 0) (g_type inp 1) = d_Seff"
    "para_epsilon (ilp_para inp) (g_type inp 0) (g_type inp 1) = eps"
    "para_z0 (ilp_para inp) (g_type inp 0) (g_type inp 1) = z0"
    "para_lambda (ilp_para inp) (g_type inp 0) (g_type inp 1) = lam"
    "para_delta2inv (ilp_para inp) (g_type inp 0) (g_type inp 1) = delta2inv"
    "para_rcut_global (ilp_para inp) (g_type inp 0) (g_type inp 1) = Rcut"
    using assms(12) by (simp_all add: para_entry_def)
  have p10: "para_C (ilp_para inp) (g_type inp 1) (g_type inp 0) = C"
    "para_C_6 (ilp_para inp) (g_type inp 1) (g_type inp 0) = C6"
    "para_d (ilp_para inp) (g_type inp 1) (g_type inp 0) = d"
    "para_d_Seff (ilp_para inp) (g_type inp 1) (g_type inp 0) = d_Seff"
    "para_epsilon (ilp_para inp) (g_type inp 1) (g_type inp 0) = eps"
    "para_z0 (ilp_para inp) (g_type inp 1) (g_type inp 0) = z0"
    "para_lambda (ilp_para inp) (g_type inp 1) (g_type inp 0) = lam"
    "para_delta2inv (ilp_para inp) (g_type inp 1) (g_type inp 0) = delta2inv"
    "para_rcut_global (ilp_para inp) (g_type inp 1) (g_type inp 0) = Rcut"
    using assms(13) by (simp_all add: para_entry_def)
  have b0: "map_option po_pe (pair_body inp default_normal 0 0) = Some ?E"
    using pair_body_default_pe [of inp 0 0 1 x12 y12 z12 r Rcut]
      assms(1,6,8,9,14) r'(1) closed_form_eq [OF assms(11)]
    by (simp add: p01)
  have b1: "map_option po_pe (pair_body inp default_normal 1 0) = Some ?E"
    using pair_body_default_pe [of inp 1 0 0 "- x12" "- y12" "- z12" r Rcut]
      assms(1,7,8,10,14) r'(2) closed_form_eq [OF assms(11)]
    by (simp add: p10)
  have pe: "s_pe (find_force_acc inp ?nl 0 s) = ?E" "s_pe (find_force_acc inp ?nl 1 s) = ?E" for s
    by (simp_all add: single_neighbor_pe assms(4,5) nrm b0 b1)
  have "g_potential (compute inp nl st) = (g_potential st)(0 := g_potential st 0 + ?E, 1 := g_potential st 1 + ?E)"
    by (simp add: compute_def Let_def reduce_frame compute_passes_def gpu_find_force_def
        assms(2,3) upto_rec1 thread_potential pe init_frame)
  then show ?thesis
    by simp
qed


lemma two_layers_fields:
  "number_of_particles two_layers = 2" "N1 two_layers = 0" "N2 two_layers = 2"
  "apply_mic two_layers v = v" "g_neighbor_number two_layers n = 1"
  "g_neighbor_list two_layers i = [1, 0] ! nat i" "g_type two_layers n = 0"
  "group_label two_layers n = n" "g_pos two_layers n = (0, 0, real_of_int n)"
  "ilp_para two_layers = const_para"
  by (simp_all add: two_layers_def)

lemma two_layers_hyps:
  "g_neighbor_list two_layers 0 = 1" "g_neighbor_list two_layers 1 = 0"
  "group_label two_layers 0 \<noteq> group_label two_layers 1"
  "mic_disp two_layers 0 1 = (0, 0, 1)" "mic_disp two_layers 1 0 = (- 0, - 0, - 1)"
  "(1 :: real) = sqrt (0 * 0 + 0 * 0 + 1 * 1)"
  "para_entry (ilp_para two_layers) (g_type two_layers 0) (g_type two_layers 1)
     = [1, 1, 0, 0, 2, 1, 0, 1, 4]"
  "para_entry (ilp_para two_layers) (g_type two_layers 1) (g_type two_layers 0)
     = [1, 1, 0, 0, 2, 1, 0, 1, 4]"
  "(1 :: real) < 4"
  by (simp_all add: two_layers_fields mic_disp_def para_entry_def const_para_def)

text \<open>
  Claim C4 says that for two atoms in different groups within the global cutoff the total
  potential energy is the van der Waals expression alone. The kernel adds the repulsive term
  for every pair it does not skip, whatever the number of secondary neighbours; with no
  secondary neighbours the normal is \<open>(0, 0, 1)\<close>. For two atoms at distance 1 along \<open>z\<close>
  (cutoff 4, \<open>C = C6 = 1\<close>, \<open>epsilon = 2\<close>, \<open>lambda = d = 0\<close>) the energy added is
  \<open>26649 / 8192\<close>, and the van der Waals expression is \<open>- 3807 / 8192\<close>.
\<close>

theorem two_atom_energy_has_repulsion:
  "\<forall>nl st.
     ilp_neighbor_number (compute_neighbor two_layers nl) 0 = 0
   \<and> ilp_neighbor_number (compute_neighbor two_layers nl) 1 = 0
   \<and> g_potential (compute two_layers nl st) 0 + g_potential (compute two_layers nl st) 1
       - (g_potential st 0 + g_potential st 1) = 26649 / 8192
   \<and> calc_Tap 1 (1 / 4) * (- 1 / 1 ^ 6) / (1 + exp (- 0 * 1 + 0)) = - (3807 / 8192 :: real)
   \<and> g_potential (compute two_layers nl st) 0 + g_potential (compute two_layers nl st) 1
       - (g_potential st 0 + g_potential st 1)
       \<noteq> calc_Tap 1 (1 / 4) * (- 1 / 1 ^ 6) / (1 + exp (- 0 * 1 + 0))"
proof (intro allI)
  fix nl st
  show "ilp_neighbor_number (compute_neighbor two_layers nl) 0 = 0
   \<and> ilp_neighbor_number (compute_neighbor two_layers nl) 1 = 0
   \<and> g_potential (compute two_layers nl st) 0 + g_potential (compute two_layers nl st) 1
       - (g_potential st 0 + g_potential st 1) = 26649 / 8192
   \<and> calc_Tap 1 (1 / 4) * (- 1 / 1 ^ 6) / (1 + exp (- 0 * 1 + 0)) = - (3807 / 8192 :: real)
   \<and> g_potential (compute two_layers nl st) 0 + g_potential (compute two_layers nl st) 1
       - (g_potential st 0 + g_potential st 1)
       \<noteq> calc_Tap 1 (1 / 4) * (- 1 / 1 ^ 6) / (1 + exp (- 0 * 1 + 0))"
    using two_atom_energy_aux [OF two_layers_fields(1-3) two_layers_fields(5)
        two_layers_fields(5) two_layers_hyps, of nl st]
      no_secondary_neighbors [OF two_layers_fields(1-3) two_layers_fields(5)
        two_layers_fields(5) two_layers_hyps(1-3), of nl]
    by (simp add: calc_Tap_def Tap_coeff_def)
qed

text \<open>
  Claim C4, amended: for a system of exactly two atoms in different groups, each the only
  general neighbour of the other, at distance \<open>0 < r < rcut_global\<close> and with the same parameter
  entry for both orders of the two types, neither atom has a secondary neighbour, and the
  potential energy that one evaluation adds, summed over the two atoms, is the van der Waals
  expression \<open>Tap(r) * (- C6 / r^6) / (1 + exp (- d_Seff * r + d))\<close> plus the repulsive
  energy of the two ordered pairs for the default normal \<open>(0, 0, 1)\<close>,
  \<open>2 * Tap(r) * exp (- lambda * (r - z0)) * (epsilon / 2 + C * exp (- (r^2 - z12^2) *
  delta2inv))\<close>, where \<open>z12\<close> is the \<open>z\<close> component of the displacement.
\<close>

theorem two_atom_energy:
  assumes "number_of_particles inp = 2" "N1 inp = 0" "N2 inp = 2"
    and "g_neighbor_number inp 0 = 1" "g_neighbor_number inp 1 = 1"
    and "g_neighbor_list inp 0 = 1" "g_neighbor_list inp 1 = 0"
    and "group_label inp 0 \<noteq> group_label inp 1"
    and "mic_disp inp 0 1 = (x12, y12, z12)" "mic_disp inp 1 0 = (- x12, - y12, - z12)"
    and "r = sqrt (x12 * x12 + y12 * y12 + z12 * z12)"
    and "para_entry (ilp_para inp) (g_type inp 0) (g_type inp 1)
           = [C, C6, d, d_Seff, eps, z0, lam, delta2inv, Rcut]"
    and "para_entry (ilp_para inp) (g_type inp 1) (g_type inp 0)
           = [C, C6, d, d_Seff, eps, z0, lam, delta2inv, Rcut]"
    and "r < Rcut" and "0 < r"
  shows "ilp_neighbor_number (compute_neighbor inp nl) 0 = 0
       \<and> ilp_neighbor_number (compute_neighbor inp nl) 1 = 0
       \<and> g_potential (compute inp nl st) 0 + g_potential (compute inp nl st) 1
           - (g_potential st 0 + g_potential st 1)
         = calc_Tap r (1 / Rcut) * (- C6 / r ^ 6) / (1 + exp (- d_Seff * r + d))
           + 2 * (calc_Tap r (1 / Rcut)
                  * (exp (- lam * (r - z0))
                     * (eps / 2 + C * exp (- ((r ^ 2 - z12 ^ 2) * delta2inv)))))"
  using two_atom_energy_aux [OF assms(1-14)] no_secondary_neighbors [OF assms(1-8)]
  by simp

theorem two_atom_energy_witness:
  "ilp_neighbor_number (compute_neighbor two_layers blank_nl) 0 = 0
   \<and> g_potential (compute two_layers blank_nl blank_state) 0
     + g_potential (compute two_layers blank_nl blank_state) 1 = 26649 / 8192"
  using two_atom_energy [OF two_layers_fields(1-3) two_layers_fields(5) two_layers_fields(5)
      two_layers_hyps zero_less_one, of blank_nl blank_state]
  by (simp add: blank_state_def calc_Tap_def Tap_coeff_def)

subsection \<open>Taper cutoff inside the force kernel\<close>

lemma scp_fields:
  "number_of_particles short_cutoff_pair = 2" "N1 short_cutoff_pair = 0"
  "N2 short_cutoff_pair = 2"
  "apply_mic short_cutoff_pair v = v" "g_neighbor_number short_cutoff_pair n = 1"
  "g_neighbor_list short_cutoff_pair i = [1, 0] ! nat i" "g_type short_cutoff_pair n = 0"
  "group_label short_cutoff_pair n = n"
  "g_pos short_cutoff_pair n = (0, 0, real_of_int n * (3 / 10))"
  "ilp_para short_cutoff_pair =
     const_para\<lparr>para_rcutsq_ilp := (\<lambda>t1 t2. 1 / 16), para_rcut_global := (\<lambda>t1 t2. 1 / 2)\<rparr>"
  by (simp_all add: short_cutoff_pair_def)

lemma sqrt_9_100: "sqrt (9 / 100) = 3 / 10"
  by (rule real_sqrt_unique) (simp_all add: power2_eq_square)

lemma scp_normal:
  "find_force_normal short_cutoff_pair (compute_neighbor short_cutoff_pair nl) 0 = default_normal"
  by (rule normal_default, rule no_secondary_neighbors(1)) (simp_all add: scp_fields)

text \<open>
  Claim C5 says that the value evaluator and the derivative evaluator of the taper apply the
  same cutoff condition, both returning 0 from \<open>r_ij \<ge> Rcut\<close> on. The value evaluator
  compares the reduced distance \<open>r_ij * Rcutinv\<close> with 1, the derivative evaluator compares it
  with \<open>Rcut\<close>. For two atoms in different groups at distance \<open>3 / 10\<close> under the global
  cutoff \<open>1 / 2\<close>, the force kernel does not skip the pair and calls both evaluators: the
  value evaluator is inside its cutoff and returns \<open>4528 / 15625\<close>, the derivative evaluator
  applies its cutoff (\<open>3 / 5 \<ge> 1 / 2\<close>) and returns 0, where its polynomial branch gives
  \<open>- 12096 / 3125\<close>; the pairwise repulsive force that the kernel stores is then zero.
\<close>

theorem taper_cutoffs_disagree_inside_cutoff:
  "\<forall>nl.
     g_neighbor_list short_cutoff_pair (0 + number_of_particles short_cutoff_pair * 0) = 1
   \<and> group_label short_cutoff_pair 0 \<noteq> group_label short_cutoff_pair 1
   \<and> sqrt (norm_sq (mic_disp short_cutoff_pair 0 1)) = 3 / 10
   \<and> para_rcut_global (ilp_para short_cutoff_pair) (g_type short_cutoff_pair 0)
         (g_type short_cutoff_pair 1) = 1 / 2
   \<and> calc_Tap (3 / 10) (1 / (1 / 2)) = 4528 / 15625
   \<and> calc_dTap (3 / 10) (1 / 2) (1 / (1 / 2)) = 0
   \<and> dTap_poly (3 / 10 * (1 / (1 / 2))) (1 / (1 / 2)) = - (12096 / 3125)
   \<and> map_option po_fkc
         (pair_body short_cutoff_pair
            (find_force_normal short_cutoff_pair (compute_neighbor short_cutoff_pair nl) 0) 0 0)
       = Some (0, 0, 0)"
  by (simp add: scp_normal)
     (simp add: scp_fields mic_disp_def norm_sq_def sqrt_9_100 const_para_def
        calc_Tap_def calc_dTap_def dTap_poly_def Tap_coeff_def pair_body_def Let_def
        calc_vdW_def default_normal_def arr3_of_def)

subsection \<open>Block-temperature sampler\<close>

text \<open>The block reduction of \<open>find_group_temp\<close> returns the sum over the members of the
  group, divided by \<open>3 * K_B * group_size\<close>; a sampled step writes these temperatures and the
  two transferred energies to the row \<open>step div sample_interval\<close> and nothing else.\<close>

lemma reduce_step_sum:
  assumes "k \<le> a"
  shows "(\<Sum>t<k. reduce_step (a, k) s t) = (\<Sum>t<2 * k. s t)"
proof -
  have "(\<Sum>t<k. reduce_step (a, k) s t) = (\<Sum>t<k. s t + s (t + k))"
    using assms by (intro sum.cong) (auto simp: reduce_step_def)
  also have "\<dots> = (\<Sum>t<k. s t) + (\<Sum>t<k. s (t + k))"
    by (simp add: sum.distrib)
  also have "(\<Sum>t<k. s (t + k)) = (\<Sum>t = k..<2 * k. s t)"
    using sum.shift_bounds_nat_ivl [of s 0 k k] by (simp add: lessThan_atLeast0 mult_2)
  also have "(\<Sum>t<k. s t) + (\<Sum>t = k..<2 * k. s t) = (\<Sum>t<2 * k. s t)"
    using sum.atLeastLessThan_concat [of 0 k "2 * k" s] by (simp add: lessThan_atLeast0)
  finally show ?thesis .
qed

lemma tree_sum:
  "fold reduce_step
     [(128, 128), (64, 64), (32, 32), (32, 16), (32, 8), (32, 4), (32, 2), (32, 1)] s 0
   = (\<Sum>t<256. s t)"
proof -
  define s1 where "s1 = reduce_step (128, 128) s"
  define s2 where "s2 = reduce_step (64, 64) s1"
  define s3 where "s3 = reduce_step (32, 32) s2"
  define s4 where "s4 = reduce_step (32, 16) s3"
  define s5 where "s5 = reduce_step (32, 8) s4"
  define s6 where "s6 = reduce_step (32, 4) s5"
  define s7 where "s7 = reduce_step (32, 2) s6"
  define s8 where "s8 = reduce_step (32, 1) s7"
  have "s8 0 = (\<Sum>t<1. s8 t)" by simp
  also have "\<dots> = (\<Sum>t<2. s7 t)" unfolding s8_def using reduce_step_sum [of 1 32 s7] by simp
  also have "\<dots> = (\<Sum>t<4. s6 t)" unfolding s7_def using reduce_step_sum [of 2 32 s6] by simp
  also have "\<dots> = (\<Sum>t<8. s5 t)" unfolding s6_def using reduce_step_sum [of 4 32 s5] by simp
  also have "\<dots> = (\<Sum>t<16. s4 t)" unfolding s5_def using reduce_step_sum [of 8 32 s4] by simp
  also have "\<dots> = (\<Sum>t<32. s3 t)" unfolding s4_def using reduce_step_sum [of 16 32 s3] by simp
  also have "\<dots> = (\<Sum>t<64. s2 t)" unfolding s3_def using reduce_step_sum [of 32 32 s2] by simp
  also have "\<dots> = (\<Sum>t<128. s1 t)" unfolding s2_def using reduce_step_sum [of 64 64 s1] by simp
  also have "\<dots> = (\<Sum>t<256. s t)" unfolding s1_def using reduce_step_sum [of 128 128 s] by simp
  finally show ?thesis
    by (simp add: s8_def s7_def s6_def s5_def s4_def s3_def s2_def s1_def)
qed

lemma fold_add_sum:
  fixes f :: "nat \<Rightarrow> real"
  shows "fold (\<lambda>x s. s + f x) xs a = a + sum_list (map f xs)"
  by (induction xs arbitrary: a) simp_all

lemma thread_ke_sum:
  "thread_ke atom bid tid =
     (\<Sum>patch<(group_size atom bid - 1) div 256 + 1.
        if tid + patch * 256 < group_size atom bid then ke_term atom bid (tid + patch * 256)
        else 0)"
proof -
  have "thread_ke atom bid tid =
      fold (\<lambda>patch s. s + (if tid + patch * 256 < group_size atom bid
                             then ke_term atom bid (tid + patch * 256) else 0))
        [0..<(group_size atom bid - 1) div 256 + 1] 0"
    unfolding thread_ke_def Let_def ke_term_def
    by (intro arg_cong [where f = "\<lambda>f. fold f _ _"]) (auto simp: fun_eq_iff)
  then show ?thesis
    by (simp add: fold_add_sum interv_sum_list_conv_sum_set_nat lessThan_atLeast0
        del: upt_Suc)
qed


lemma patches_cover:
  fixes n :: nat
  shows "n \<le> ((n - 1) div 256 + 1) * 256"
proof -
  have "(n - 1) div 256 * 256 + (n - 1) mod 256 = n - 1"
    by simp
  moreover have "(n - 1) mod 256 < 256"
    by simp
  ultimately have "n - 1 < (n - 1) div 256 * 256 + 256"
    by linarith
  then show ?thesis
    by simp
qed

lemma block_sum:
  fixes g :: "nat \<Rightarrow> real"
  shows "(\<Sum>tid<256. \<Sum>patch<P. g (tid + patch * 256)) = (\<Sum>k<P * 256. g k)"
proof -
  have "(\<Sum>tid<256. \<Sum>patch<P. g (tid + patch * 256))
        = (\<Sum>patch<P. \<Sum>tid<256. g (tid + patch * 256))"
    by (rule sum.swap)
  also have "\<dots> = (\<Sum>patch<P. sum g {patch * 256..<patch * 256 + 256})"
  proof (rule sum.cong [OF refl])
    fix patch
    show "(\<Sum>tid<256. g (tid + patch * 256)) = sum g {patch * 256..<patch * 256 + 256}"
      using sum.shift_bounds_nat_ivl [of g 0 "patch * 256" 256]
      by (simp add: lessThan_atLeast0 add.commute)
  qed
  also have "\<dots> = (\<Sum>k<P * 256. g k)"
    by (rule sum.nat_group)
  finally show ?thesis .
qed

lemma find_group_temp_sum:
  "find_group_temp atom bid =
     (\<Sum>k<group_size atom bid. ke_term atom bid k)
       / (real DIM * K_B * real (group_size atom bid))"
proof -
  let ?n = "group_size atom bid"
  let ?P = "(?n - 1) div 256 + 1"
  let ?g = "\<lambda>k. if k < ?n then ke_term atom bid k else 0"
  have "(\<Sum>tid<256. thread_ke atom bid tid) = (\<Sum>tid<256. \<Sum>patch<?P. ?g (tid + patch * 256))"
    by (simp only: thread_ke_sum)
  also have "\<dots> = (\<Sum>k<?P * 256. ?g k)"
    by (rule block_sum)
  also have "\<dots> = (\<Sum>k<?n. ke_term atom bid k)"
  proof -
    have "(\<Sum>k<?P * 256. ?g k) = sum (ke_term atom bid) ({..<?P * 256} \<inter> {k. k < ?n})"
      using sum.inter_restrict [of "{..<?P * 256}" "ke_term atom bid" "{k. k < ?n}"]
      by simp
    moreover have "{..<?P * 256} \<inter> {k. k < ?n} = {..<?n}"
      using patches_cover [of ?n] by auto
    ultimately show ?thesis
      by simp
  qed
  finally have total: "(\<Sum>tid<256. thread_ke atom bid tid) = (\<Sum>k<?n. ke_term atom bid k)" .
  show ?thesis
    unfolding find_group_temp_def Let_def tree_sum total ..
qed


lemma sample_row:
  fixes h :: Heat and para :: Parameters and atom :: Atom and et :: "real \<times> real"
    and step :: nat
  defines "Ng \<equiv> number_of_groups para"
  defines "offset \<equiv> step div sample_interval h * (Ng + 2)"
  defines "h' \<equiv> sample_block_temperature step para atom et h"
  assumes "sample h" and "step mod sample_interval h = 0"
  shows "g < Ng \<Longrightarrow> group_temp h' (offset + g)
           = (\<Sum>k<group_size atom g. ke_term atom g k) / (real DIM * K_B * real (group_size atom g))"
    and "group_temp h' (offset + Ng) = fst et"
    and "group_temp h' (offset + Ng + 1) = snd et"
    and "i < offset \<or> offset + Ng + 2 \<le> i \<Longrightarrow> group_temp h' i = group_temp h i"
  using assms(4,5)
  by (auto simp add: h'_def offset_def Ng_def sample_block_temperature_def Let_def
      find_group_temp_sum)

lemma five_steps_fields:
  "number_of_groups five_steps = 1" "number_of_steps five_steps = 5"
  by (simp_all add: five_steps_def)

lemma five_steps_pre:
  "preprocess_heat five_steps (sampling_every_second buf) =
     \<lparr>sample = True, sample_interval = 2, group_temp = buf, group_temp_num = 6\<rparr>"
  by (simp add: preprocess_heat_def sampling_every_second_def five_steps_fields)

lemma five_steps_lines:
  "postprocess_heat fmt five_steps
      \<lparr>sample = True, sample_interval = 2, group_temp = buf, group_temp_num = 6\<rparr> []
       = fmt (buf 0) @ fmt (buf 1) @ fmt (buf 2) @ [CHR 0x0A]
         @ fmt (buf 3) @ fmt (buf 4) @ fmt (buf 5) @ [CHR 0x0A]"
proof -
  have u: "[0..<2] = [0, 1 :: nat]" "[0..<3] = [0, 1, 2 :: nat]"
    by (simp_all add: upt_rec)
  show ?thesis
    by (simp add: postprocess_heat_def heat_line_def five_steps_fields Let_def u)
       (simp add: eval_nat_numeral)
qed

text \<open>
  Claim C10 says that the buffer has \<open>(number_of_groups + 2) * (number_of_steps /
  sample_interval)\<close> entries, that every sampled step has its row of temperatures and
  transferred energies in it, and that the output has one line per sampled step. In a run of
  5 steps sampled every 2 steps with one group, the buffer has 6 entries (2 rows) and the
  output has 2 lines (rows 0 and 1), but steps 0, 2 and 4 are sampled: the sample of step 4
  is written to the indices 6, 7 and 8, beyond the buffer, and has no output line.
\<close>

theorem sample_row_outside_buffer:
  "\<forall>buf atom et fmt.
     group_temp_num (preprocess_heat five_steps (sampling_every_second buf)) = 6
   \<and> filter (\<lambda>step. step mod sample_interval (sampling_every_second buf) = 0) [0, 1, 2, 3, 4]
       = [0, 2, 4]
   \<and> group_temp (sample_block_temperature 4 five_steps atom et
         (preprocess_heat five_steps (sampling_every_second buf))) 6 = find_group_temp atom 0
   \<and> group_temp (sample_block_temperature 4 five_steps atom et
         (preprocess_heat five_steps (sampling_every_second buf))) 7 = fst et
   \<and> group_temp (sample_block_temperature 4 five_steps atom et
         (preprocess_heat five_steps (sampling_every_second buf))) 8 = snd et
   \<and> postprocess_heat fmt five_steps (preprocess_heat five_steps (sampling_every_second buf)) []
       = fmt (buf 0) @ fmt (buf 1) @ fmt (buf 2) @ [CHR 0x0A]
         @ fmt (buf 3) @ fmt (buf 4) @ fmt (buf 5) @ [CHR 0x0A]"
proof (intro allI conjI)
  fix buf atom et fmt
  let ?h = "preprocess_heat five_steps (sampling_every_second buf)"
  show "group_temp_num ?h = 6"
    by (simp add: five_steps_pre)
  show "filter (\<lambda>step. step mod sample_interval (sampling_every_second buf) = 0) [0, 1, 2, 3, 4]
       = [0, 2, 4]"
    by (simp add: sampling_every_second_def)
  show "group_temp (sample_block_temperature 4 five_steps atom et ?h) 6 = find_group_temp atom 0"
    by (simp add: five_steps_pre sample_block_temperature_def five_steps_fields Let_def)
  show "group_temp (sample_block_temperature 4 five_steps atom et ?h) 7 = fst et"
    by (simp add: five_steps_pre sample_block_temperature_def five_steps_fields Let_def)
  show "group_temp (sample_block_temperature 4 five_steps atom et ?h) 8 = snd et"
    by (simp add: five_steps_pre sample_block_temperature_def five_steps_fields Let_def)
  show "postprocess_heat fmt five_steps ?h []
       = fmt (buf 0) @ fmt (buf 1) @ fmt (buf 2) @ [CHR 0x0A]
         @ fmt (buf 3) @ fmt (buf 4) @ fmt (buf 5) @ [CHR 0x0A]"
    by (simp only: five_steps_pre five_steps_lines)
qed


end
